theory Spec2Isabelle
  imports Main "HOL-Library.Word"
begin

unbundle bit_operations_syntax

section \<open>The IR builder's nodes\<close>

text \<open>
  Modelled from the spec: the IR builder (module.ts) is not part of the sources at hand.
  The spec: it "creates nodes (binary, unary, load, store, get/set local/global, call,
  call_indirect, block, if, loop, break, switch, drop)" and constants for the compiler
  (compiler.ts), which calls it as \<open>module.createX\<close>. An \<open>ExpressionRef\<close> is
  modelled as the tree it points to, with the operations and native types named as the
  compiler names them. Constants carry their bit pattern; \<open>createI64(low, high)\<close>
  keeps both halves. \<open>Opaque\<close> stands for IR whose shape plays no role.
\<close>

datatype NativeType = NoneType | I32 | I64 | F32 | F64

datatype UnaryOp =
    ExtendI8ToI32 | ExtendI16ToI32 | EqzI32
  | PromoteF32 | DemoteF64
  | TruncF32ToI64 | TruncF32ToI32 | TruncF32ToU64 | TruncF32ToU32
  | TruncF64ToI64 | TruncF64ToI32 | TruncF64ToU64 | TruncF64ToU32
  | ConvertI64ToF32 | ConvertU64ToF32 | ConvertI32ToF32 | ConvertU32ToF32
  | ConvertI64ToF64 | ConvertU64ToF64 | ConvertI32ToF64 | ConvertU32ToF64
  | WrapI64 | ExtendI32 | ExtendU32

datatype BinaryOp =
    AddI32 | SubI32 | AndI32 | ShlI32 | ShrI32 | ShrU32 | ShrI64 | ShrU64

datatype expr =
    I32Const "32 word"
  | I64Const "32 word" "32 word"
  | F32Const "32 word"
  | F64Const "64 word"
  | Unary UnaryOp expr
  | Binary BinaryOp expr expr
  | GetLocal nat NativeType
  | SetLocal nat expr
  | GetGlobal string NativeType
  | SetGlobal string expr
  | Call string "expr list" NativeType
  | CallImport string "expr list" NativeType
  | Block "string option" "expr list" NativeType
  | Switch "string list" string expr
  | Drop expr
  | Unreachable
  | Opaque nat

section \<open>Types\<close>

datatype TypeKind =
    I8 | I16 | I32 | I64 | ISIZE | U8 | U16 | U32 | U64 | USIZE | BOOL | F32 | F64 | VOID

datatype TypeFlags =
    SIGNED | UNSIGNED | INTEGER | FLOAT | SHORT | LONG | VALUE | REFERENCE | NULLABLE

record Type =
  kind :: TypeKind
  flags :: "TypeFlags set"
  size :: nat

definition type_is :: "Type \<Rightarrow> TypeFlags \<Rightarrow> bool" where
  "type_is t f = (f \<in> flags t)"

datatype Feature = SIGN_EXTENSION | MUTABLE_GLOBAL

datatype Target = WASM32 | WASM64

record Options =
  target :: Target
  memoryBase :: "32 word"
  features :: "Feature set"

definition isWasm64 :: "Options \<Rightarrow> bool" where
  "isWasm64 opts = (target opts = WASM64)"

definition nativeSizeType :: "Options \<Rightarrow> NativeType" where
  "nativeSizeType opts = (if target opts = WASM64 then NativeType.I64 else NativeType.I32)"

definition hasFeature :: "Options \<Rightarrow> Feature \<Rightarrow> bool" where
  "hasFeature opts f = (f \<in> features opts)"

section \<open>Small integer wrapping\<close>

text \<open>
  \<open>ensureSmallIntegerWrap\<close> (compiler.ts, 7414-7475). \<open>flow.canOverflow\<close> belongs
  to the flow analysis in program.ts; it is the parameter \<open>canOverflow\<close>.
\<close>

definition ensureSmallIntegerWrap ::
  "Options \<Rightarrow> (expr \<Rightarrow> Type \<Rightarrow> bool) \<Rightarrow> expr \<Rightarrow> Type \<Rightarrow> expr" where
  "ensureSmallIntegerWrap opts canOverflow e t =
     (case kind t of
        TypeKind.I8 \<Rightarrow>
          if canOverflow e t
          then (if hasFeature opts SIGN_EXTENSION
                then Unary ExtendI8ToI32 e
                else Binary ShrI32 (Binary ShlI32 e (I32Const 24)) (I32Const 24))
          else e
      | TypeKind.I16 \<Rightarrow>
          if canOverflow e t
          then (if hasFeature opts SIGN_EXTENSION
                then Unary ExtendI16ToI32 e
                else Binary ShrI32 (Binary ShlI32 e (I32Const 16)) (I32Const 16))
          else e
      | TypeKind.U8 \<Rightarrow>
          if canOverflow e t then Binary AndI32 e (I32Const 0xff) else e
      | TypeKind.U16 \<Rightarrow>
          if canOverflow e t then Binary AndI32 e (I32Const 0xffff) else e
      | TypeKind.BOOL \<Rightarrow>
          if canOverflow e t then Binary AndI32 e (I32Const 0x1) else e
      | _ \<Rightarrow> e)"

section \<open>Diagnostics, assertions and the syntax tree\<close>

text \<open>
  \<open>this.error(code, range, ...)\<close> appends to the diagnostics; only the code is kept.
  A failed \<open>assert\<close> aborts the compilation: it is the error value of a result.
\<close>

datatype DiagnosticCode =
    Type_0_is_not_assignable_to_type_1
  | Conversion_from_type_0_to_1_requires_an_explicit_cast
  | Enum_member_must_have_initializer
  | In_const_enum_declarations_member_initializer_must_be_constant_expression
  | Optional_parameter_must_have_an_initializer
  | An_implementation_cannot_be_declared_in_ambient_contexts
  | Function_implementation_is_missing_or_not_immediately_following_the_declaration
  | Operation_not_supported
  | The_0_operator_cannot_be_applied_to_type_1

text \<open>
  \<open>DanglingReference\<close> has no counterpart in the source: it is the result of following
  a reference that the store of function objects does not hold.
\<close>

datatype error = AssertionFailed | DanglingReference

datatype ConversionKind = NONE | IMPLICIT | EXPLICIT

datatype WrapMode = NONE | WRAP

text \<open>
  A node of the syntax tree (ast.ts) is its kind and an identity. The expression compiler
  \<open>compileExpression(node, contextualType, conversionKind, wrapMode)\<close> is outside the part
  of the compiler modelled here: it is the parameter \<open>cx\<close>, giving the IR of a node
  for a contextual type.
\<close>

datatype NodeKind = LITERAL | NULL | TRUE | FALSE | IDENTIFIER | CALL | BINARY | FUNCTION

datatype Expression = Node NodeKind nat

fun nodeKind :: "Expression \<Rightarrow> NodeKind" where
  "nodeKind (Node k n) = k"

text \<open>
  Modelled from the spec: \<open>nodeIsConstantValue\<close> is defined in ast.ts, which is not part of
  the sources at hand. The spec calls the initialisers it accepts "syntactically constant
  values" and "literals": the literal node and the keywords \<open>null\<close>, \<open>true\<close>, \<open>false\<close>.
\<close>

fun nodeIsConstantValue :: "NodeKind \<Rightarrow> bool" where
  "nodeIsConstantValue LITERAL = True"
| "nodeIsConstantValue NULL = True"
| "nodeIsConstantValue TRUE = True"
| "nodeIsConstantValue FALSE = True"
| "nodeIsConstantValue _ = False"

text \<open>
  Modelled from the spec: \<open>Type.toNativeType\<close> and \<open>Type.toNativeZero\<close> are defined in
  types.ts, which is not part of the sources at hand. The spec: every type knows an IR-level
  native type (\<open>I32|I64|F32|F64|None\<close>) and a native zero. The size types are 64-bit
  natives exactly when their size is 64; \<open>void\<close> has no zero.
\<close>

definition toNativeType :: "Type \<Rightarrow> NativeType" where
  "toNativeType t =
     (case kind t of
        TypeKind.I64 \<Rightarrow> NativeType.I64
      | TypeKind.U64 \<Rightarrow> NativeType.I64
      | TypeKind.ISIZE \<Rightarrow> if size t = 64 then NativeType.I64 else NativeType.I32
      | TypeKind.USIZE \<Rightarrow> if size t = 64 then NativeType.I64 else NativeType.I32
      | TypeKind.F32 \<Rightarrow> NativeType.F32
      | TypeKind.F64 \<Rightarrow> NativeType.F64
      | TypeKind.VOID \<Rightarrow> NoneType
      | _ \<Rightarrow> NativeType.I32)"

definition toNativeZero :: "Type \<Rightarrow> expr" where
  "toNativeZero t =
     (case toNativeType t of
        NativeType.I64 \<Rightarrow> I64Const 0 0
      | NativeType.F32 \<Rightarrow> F32Const 0
      | NativeType.F64 \<Rightarrow> F64Const 0
      | NoneType \<Rightarrow> Unreachable
      | NativeType.I32 \<Rightarrow> I32Const 0)"

section \<open>Program elements\<close>

datatype CommonFlags =
    COMPILED | TRAMPOLINE | INSTANCE | MODULE_IMPORT | AMBIENT | CONST
  | CONSTRUCTOR | MAIN | ARROW | GET | SET | EXPORT | STATIC | INLINED

datatype DecoratorFlags = BUILTIN | EXTERNAL | INLINE

text \<open>
  A \<open>Function\<close> (program.ts) with the fields the compiler reads and writes.
  The resolver gives a signature one type per declared parameter, so
  \<open>signature.parameterTypes[i]\<close> and the initialiser of
  \<open>prototype.declaration.signature.parameters[i]\<close> are kept together as the i-th entry of
  \<open>parameterList\<close>; \<open>requiredParameters\<close>, \<open>returnType\<close> and \<open>thisType\<close> are
  the other fields of the signature. \<open>hasBody\<close> tells whether
  \<open>prototype.declaration.body\<close> is present, \<open>decoratorFlags\<close> are the prototype's,
  \<open>trampoline\<close> is a reference to another function object and \<open>flowFlags\<close> is
  \<open>flow.flags\<close>. Function objects are shared and mutated in place, so they live in a
  store, addressed by reference.
\<close>

type_synonym ref = nat

record Function =
  internalName :: string
  commonFlags :: "CommonFlags set"
  decoratorFlags :: "DecoratorFlags set"
  parameterList :: "(Type \<times> Expression option) list"
  requiredParameters :: nat
  returnType :: Type
  thisType :: "Type option"
  hasBody :: bool
  functionTableIndex :: int
  trampoline :: "ref option"
  flowFlags :: nat
  additionalLocals :: "Type list"

definition parameterTypes :: "Function \<Rightarrow> Type list" where
  "parameterTypes f = map fst (parameterList f)"

record EnumValue =
  valueName :: string
  "value" :: "Expression option"

datatype EnumMember = ENUMVALUE EnumValue | OTHER

record Enum =
  enumFlags :: "CommonFlags set"
  members :: "EnumMember list"

section \<open>Module, static memory and the compiler's state\<close>

record MemorySegment =
  buffer :: "8 word list"
  offset :: "64 word"

text \<open>
  What the module has been given: globals (\<open>addGlobal(name, type, mutable, initializer)\<close>),
  functions (\<open>addFunction(name, type, locals, body)\<close> with the type as parameter and
  result natives), function imports and the memory of \<open>setMemory\<close> (initial pages,
  maximum pages, segments).
\<close>

record Module =
  globals :: "(string \<times> NativeType \<times> bool \<times> expr) list"
  addedFunctions :: "(string \<times> (NativeType list \<times> NativeType) \<times> NativeType list \<times> expr) list"
  functionImports :: "(string \<times> (NativeType list \<times> NativeType)) list"
  memory :: "(32 word \<times> 32 word \<times> MemorySegment list) option"

text \<open>
  The program's layout data that the static memory code reads. Of the class
  \<open>program.stringInstance\<close>: \<open>currentMemoryOffset\<close>, \<open>offsetof_length\<close> for
  \<open>offsetof("length")\<close>, and its \<open>type\<close>. \<open>ensureGCHook(compiler, stringInstance)\<close> is
  defined in builtins.ts, not part of the sources at hand; \<open>gcHookIndex\<close> is the hook
  index it returns for the class.
\<close>

record Class =
  currentMemoryOffset :: "32 word"
  offsetof_length :: nat
  classType :: Type
  gcHookIndex :: "32 word"

record Program =
  hasGC :: bool
  gcHeaderSize :: nat
  gcHookOffset :: nat
  stringInstance :: "Class option"

type_synonym jsstring = "16 word list"

record Compiler =
  program :: Program
  options :: Options
  module :: Module
  currentType :: Type
  diagnostics :: "DiagnosticCode list"
  startFunctionBody :: "expr list"
  memoryOffset :: "64 word"
  memorySegments :: "MemorySegment list"
  stringSegments :: "jsstring \<rightharpoonup> MemorySegment"
  functionTable :: "string list"
  argcVar :: nat
  heap :: "ref \<rightharpoonup> Function"
  nextRef :: ref

definition error :: "DiagnosticCode \<Rightarrow> Compiler \<Rightarrow> Compiler" where
  "error code c = c\<lparr>diagnostics := diagnostics c @ [code]\<rparr>"

text \<open>\<open>module.addGlobal\<close> returns a non-zero reference to the new global.\<close>

definition addGlobal ::
  "string \<Rightarrow> NativeType \<Rightarrow> bool \<Rightarrow> expr \<Rightarrow> Compiler \<Rightarrow> nat \<times> Compiler" where
  "addGlobal name ty mutable init c =
     (let m = module c; gs = globals m @ [(name, ty, mutable, init)]
      in (length gs, c\<lparr>module := m\<lparr>globals := gs\<rparr>\<rparr>))"

section \<open>Conversions\<close>

text \<open>
  The conversion ladder of \<open>convertExpression\<close> (2529-2660): the converted expression
  and the wrap mode, which the integer extensions reset to \<open>WrapMode.NONE\<close>.
  \<open>t.is(f)\<close> is \<open>type_is t f\<close>.
\<close>

definition convertValue ::
  "Options \<Rightarrow> (expr \<Rightarrow> Type \<Rightarrow> bool) \<Rightarrow> expr \<Rightarrow> Type \<Rightarrow> Type \<Rightarrow> WrapMode
     \<Rightarrow> error + (expr \<times> WrapMode)" where
  "convertValue opts canOverflow e fromType toType wrapMode =
     (if type_is fromType FLOAT then
        (if type_is toType FLOAT then
           (if kind fromType = TypeKind.F32 then
              (if kind toType = TypeKind.F64 then Inr (Unary PromoteF32 e, wrapMode)
               else Inr (e, wrapMode))
            else if kind toType = TypeKind.F32 then Inr (Unary DemoteF64 e, wrapMode)
            else Inr (e, wrapMode))
         else if type_is toType INTEGER then
           (if kind fromType = TypeKind.F32 then
              (if type_is toType SIGNED then
                 (if type_is toType LONG then Inr (Unary TruncF32ToI64 e, wrapMode)
                  else Inr (Unary TruncF32ToI32 e, wrapMode))
               else
                 (if type_is toType LONG then Inr (Unary TruncF32ToU64 e, wrapMode)
                  else Inr (Unary TruncF32ToU32 e, wrapMode)))
            else
              (if type_is toType SIGNED then
                 (if type_is toType LONG then Inr (Unary TruncF64ToI64 e, wrapMode)
                  else Inr (Unary TruncF64ToI32 e, wrapMode))
               else
                 (if type_is toType LONG then Inr (Unary TruncF64ToU64 e, wrapMode)
                  else Inr (Unary TruncF64ToU32 e, wrapMode))))
         else
           (if flags toType = {} then Inr (Drop e, wrapMode) else Inl AssertionFailed))
      else if type_is fromType INTEGER \<and> type_is toType FLOAT then
        (if kind toType = TypeKind.F32 then
           (if type_is fromType LONG then
              Inr (Unary (if type_is fromType SIGNED then ConvertI64ToF32 else ConvertU64ToF32) e,
                   wrapMode)
            else
              Inr (Unary (if type_is fromType SIGNED then ConvertI32ToF32 else ConvertU32ToF32) e,
                   wrapMode))
         else
           (if type_is fromType LONG then
              Inr (Unary (if type_is fromType SIGNED then ConvertI64ToF64 else ConvertU64ToF64) e,
                   wrapMode)
            else
              Inr (Unary (if type_is fromType SIGNED then ConvertI32ToF64 else ConvertU32ToF64) e,
                   wrapMode)))
      else
        (if type_is fromType LONG then
           (if \<not> type_is toType LONG then Inr (Unary WrapI64 e, wrapMode)
            else Inr (e, wrapMode))
         else if type_is toType LONG then
           Inr (Unary (if type_is fromType SIGNED then ExtendI32 else ExtendU32)
                  (ensureSmallIntegerWrap opts canOverflow e fromType),
                WrapMode.NONE)
         else if type_is fromType SHORT \<and> size fromType < size toType then
           Inr (ensureSmallIntegerWrap opts canOverflow e fromType, WrapMode.NONE)
         else Inr (e, wrapMode)))"

text \<open>
  \<open>convertExpression\<close> (2496-2666). \<open>fromType.isAssignableTo(toType)\<close> is defined in
  types.ts; it is the parameter \<open>isAssignableTo\<close>. The result is the expression and the
  compiler with its diagnostics and \<open>currentType\<close>.
\<close>

definition convertExpression ::
  "(Type \<Rightarrow> Type \<Rightarrow> bool) \<Rightarrow> (expr \<Rightarrow> Type \<Rightarrow> bool) \<Rightarrow> Compiler \<Rightarrow> expr \<Rightarrow> Type \<Rightarrow> Type
     \<Rightarrow> ConversionKind \<Rightarrow> WrapMode \<Rightarrow> error + (expr \<times> Compiler)" where
  "convertExpression isAssignableTo canOverflow c e fromType toType conversionKind wrapMode =
     (if conversionKind = ConversionKind.NONE then Inl AssertionFailed
      else if kind fromType = TypeKind.VOID then
        (if kind toType = TypeKind.VOID then Inl AssertionFailed
         else Inr (Unreachable, error Type_0_is_not_assignable_to_type_1 c))
      else if kind toType = TypeKind.VOID then Inr (Drop e, c)
      else
        (let c1 = (if \<not> isAssignableTo fromType toType \<and> conversionKind = IMPLICIT
                   then error Conversion_from_type_0_to_1_requires_an_explicit_cast c
                   else c)
         in case convertValue (options c) canOverflow e fromType toType wrapMode of
              Inl err \<Rightarrow> Inl err
            | Inr (e', wrapMode') \<Rightarrow>
                Inr (if wrapMode' = WRAP
                     then ensureSmallIntegerWrap (options c) canOverflow e' toType
                     else e',
                     c1\<lparr>currentType := toType\<rparr>)))"

section \<open>Unsigned right shift\<close>

text \<open>
  The case \<open>Token.GREATERTHAN_GREATERTHAN_GREATERTHAN\<close> of
  \<open>compileBinaryExpression\<close> (4138-4206), from the wrap of the left operand on.
  Every \<open>module.createBinary\<close> allocates a node; to count the allocations,
  \<open>createBinary\<close> returns the node and appends it to a log. The switch assigns \<open>expr\<close>;
  a case body without \<open>break\<close> runs on into the body of the next case, as the body of
  \<open>U8\<close>, \<open>U16\<close>, \<open>BOOL\<close> does. The result of the switch is the value of \<open>expr\<close>, the
  log and the diagnostics emitted. The default case is \<open>assert(false)\<close>.
\<close>

definition createBinary :: "BinaryOp \<Rightarrow> expr \<Rightarrow> expr \<Rightarrow> expr list \<Rightarrow> expr \<times> expr list" where
  "createBinary op l r log = (Binary op l r, log @ [Binary op l r])"

definition shrU_case_I32 ::
  "expr \<Rightarrow> expr \<Rightarrow> expr list \<Rightarrow> error + (expr \<times> expr list \<times> DiagnosticCode list)" where
  "shrU_case_I32 leftExpr rightExpr log =
     (let (e, log') = createBinary ShrU32 leftExpr rightExpr log in Inr (e, log', []))"

definition shrU_case_U8 ::
  "expr \<Rightarrow> expr \<Rightarrow> expr list \<Rightarrow> error + (expr \<times> expr list \<times> DiagnosticCode list)" where
  "shrU_case_U8 leftExpr rightExpr log =
     (let (e, log') = createBinary ShrU32 leftExpr rightExpr log
      in shrU_case_I32 leftExpr rightExpr log')"

definition shrU_switch ::
  "Options \<Rightarrow> TypeKind \<Rightarrow> expr \<Rightarrow> expr \<Rightarrow> expr list
     \<Rightarrow> error + (expr \<times> expr list \<times> DiagnosticCode list)" where
  "shrU_switch opts k leftExpr rightExpr log =
     (case k of
        TypeKind.U8 \<Rightarrow> shrU_case_U8 leftExpr rightExpr log
      | TypeKind.U16 \<Rightarrow> shrU_case_U8 leftExpr rightExpr log
      | TypeKind.BOOL \<Rightarrow> shrU_case_U8 leftExpr rightExpr log
      | TypeKind.I8 \<Rightarrow> shrU_case_I32 leftExpr rightExpr log
      | TypeKind.I16 \<Rightarrow> shrU_case_I32 leftExpr rightExpr log
      | TypeKind.I32 \<Rightarrow> shrU_case_I32 leftExpr rightExpr log
      | TypeKind.U32 \<Rightarrow> shrU_case_I32 leftExpr rightExpr log
      | TypeKind.I64 \<Rightarrow>
          (let (e, log') = createBinary ShrU64 leftExpr rightExpr log in Inr (e, log', []))
      | TypeKind.U64 \<Rightarrow>
          (let (e, log') = createBinary ShrU64 leftExpr rightExpr log in Inr (e, log', []))
      | TypeKind.USIZE \<Rightarrow>
          (let (e, log') = createBinary (if isWasm64 opts then ShrU64 else ShrU32)
                             leftExpr rightExpr log
           in Inr (e, log', []))
      | TypeKind.ISIZE \<Rightarrow>
          (let (e, log') = createBinary (if isWasm64 opts then ShrU64 else ShrU32)
                             leftExpr rightExpr log
           in Inr (e, log', []))
      | TypeKind.F32 \<Rightarrow> Inr (Unreachable, log, [The_0_operator_cannot_be_applied_to_type_1])
      | TypeKind.F64 \<Rightarrow> Inr (Unreachable, log, [The_0_operator_cannot_be_applied_to_type_1])
      | TypeKind.VOID \<Rightarrow> Inl AssertionFailed)"

text \<open>
  The operands: \<open>leftExpr\<close> of type \<open>leftType\<close> is the compiled left operand,
  \<open>rightExpr\<close> the right operand compiled for \<open>leftType\<close>, and \<open>rightType\<close> the
  \<open>currentType\<close> after it, the common operand type the switch goes by.
\<close>

definition compileUnsignedShift ::
  "Options \<Rightarrow> (expr \<Rightarrow> Type \<Rightarrow> bool) \<Rightarrow> expr \<Rightarrow> Type \<Rightarrow> expr \<Rightarrow> Type \<Rightarrow> expr list
     \<Rightarrow> error + (expr \<times> expr list \<times> DiagnosticCode list)" where
  "compileUnsignedShift opts canOverflow leftExpr leftType rightExpr rightType log =
     shrU_switch opts (kind rightType)
       (ensureSmallIntegerWrap opts canOverflow leftExpr leftType) rightExpr log"

definition countShrU32 :: "expr list \<Rightarrow> nat" where
  "countShrU32 log = length (filter (\<lambda>e. case e of Binary ShrU32 l r \<Rightarrow> True | _ \<Rightarrow> False) log)"

section \<open>Static memory\<close>

text \<open>
  Modelled from the spec: the 64-bit helpers \<open>i64_new\<close>, \<open>i64_low\<close>, \<open>i64_high\<close>,
  \<open>i64_add\<close>, \<open>i64_shr_u\<close>, \<open>i64_is_u32\<close> and \<open>i64_align\<close> belong to the glue
  layer, which is not part of the sources at hand. An \<open>I64\<close> is a 64-bit integer made of
  a low and a high 32-bit half, and addition wraps. Of \<open>i64_align\<close> the spec says that a
  segment "is aligned to a requested boundary before placement": the value is rounded up
  to the next multiple of the alignment, in 64 bits.
\<close>

definition i64_new :: "32 word \<Rightarrow> 32 word \<Rightarrow> 64 word" where
  "i64_new lo hi = ucast lo + push_bit 32 (ucast hi)"

definition i64_low :: "64 word \<Rightarrow> 32 word" where
  "i64_low v = ucast v"

definition i64_high :: "64 word \<Rightarrow> 32 word" where
  "i64_high v = ucast (drop_bit 32 v)"

definition i64_add :: "64 word \<Rightarrow> 64 word \<Rightarrow> 64 word" where
  "i64_add a b = a + b"


definition i64_is_u32 :: "64 word \<Rightarrow> bool" where
  "i64_is_u32 v = (unat v < 2 ^ 32)"

definition i64_align :: "64 word \<Rightarrow> nat \<Rightarrow> 64 word" where
  "i64_align v alignment = word_of_nat (((unat v + (alignment - 1)) div alignment) * alignment)"

text \<open>\<open>addMemorySegment\<close> (1455-1461); \<open>alignment\<close> defaults to 8 at the call sites.\<close>

definition addMemorySegment :: "8 word list \<Rightarrow> nat \<Rightarrow> Compiler \<Rightarrow> MemorySegment \<times> Compiler" where
  "addMemorySegment buf alignment c =
     (let mo = i64_align (memoryOffset c) alignment;
          segment = \<lparr>buffer = buf, offset = mo\<rparr>
      in (segment,
          c\<lparr>memorySegments := memorySegments c @ [segment],
            memoryOffset := i64_add mo (i64_new (word_of_nat (length buf)) 0)\<rparr>))"

text \<open>A sequence of \<open>addMemorySegment\<close> calls, each with its buffer and alignment.\<close>

fun addMemorySegments :: "(8 word list \<times> nat) list \<Rightarrow> Compiler \<Rightarrow> Compiler" where
  "addMemorySegments [] c = c"
| "addMemorySegments ((buf, alignment) # calls) c =
     addMemorySegments calls (snd (addMemorySegment buf alignment c))"

text \<open>
  No call of the sequence leaves the 64 bits of the offset or the 32 bits of a buffer
  length, and every alignment is positive.
\<close>

fun fits64 :: "(8 word list \<times> nat) list \<Rightarrow> Compiler \<Rightarrow> bool" where
  "fits64 [] c = True"
| "fits64 ((buf, alignment) # calls) c =
     (0 < alignment \<and> length buf < 2 ^ 32
      \<and> unat (memoryOffset c) + (alignment - 1) + length buf < 2 ^ 64
      \<and> fits64 calls (snd (addMemorySegment buf alignment c)))"

text \<open>
  Modelled from the spec: the constants \<open>Type.void\<close> and \<open>Type.i32\<close> are defined in
  types.ts, which is not part of the sources at hand. The spec: a type is a kind with
  flags (signed, integer, float, long, short, nullable) and a size; \<open>void\<close> has no
  flags, \<open>i32\<close> is a signed integer value of 32 bits.
\<close>

definition Type_void :: Type where
  "Type_void = \<lparr>kind = TypeKind.VOID, flags = {}, size = 0\<rparr>"

definition Type_i32 :: Type where
  "Type_i32 = \<lparr>kind = TypeKind.I32, flags = {SIGNED, INTEGER, VALUE}, size = 32\<rparr>"

text \<open>
  The constructor (303-315) with the initial values of the fields (283-293):
  the offset starts at \<open>max(options.memoryBase, 8)\<close>, a signed comparison of 32-bit
  integers. \<open>Type.void\<close> is the initial \<open>currentType\<close>. The function objects of the
  program are the initial store.
\<close>

definition newCompiler :: "Program \<Rightarrow> Options \<Rightarrow> (ref \<rightharpoonup> Function) \<Rightarrow> ref \<Rightarrow> Compiler" where
  "newCompiler prog opts objects next =
     \<lparr>program = prog,
      options = opts,
      module = \<lparr>globals = [], addedFunctions = [], functionImports = [], memory = None\<rparr>,
      currentType = Type_void,
      diagnostics = [],
      startFunctionBody = [],
      memoryOffset = i64_new (if sint (memoryBase opts) < 8 then 8 else memoryBase opts) 0,
      memorySegments = [],
      stringSegments = Map.empty,
      functionTable = [],
      argcVar = 0,
      heap = objects,
      nextRef = next\<rparr>"





text \<open>
  Modelled from the spec: \<open>writeI32\<close> and \<open>writeI16\<close> are defined in util, which is not
  part of the sources at hand. The spec lays a string out as \<open>length: i32\<close> and
  \<open>code units: u16[length]\<close> in WebAssembly's linear memory, which is little-endian: the
  value is stored in 4 and 2 bytes, lowest byte first. A store into a \<open>Uint8Array\<close>
  outside its length does nothing, as \<open>list_update\<close> does.
\<close>

definition bytesI32 :: "32 word \<Rightarrow> 8 word list" where
  "bytesI32 v = [ucast v, ucast (drop_bit 8 v), ucast (drop_bit 16 v), ucast (drop_bit 24 v)]"

definition bytesI16 :: "16 word \<Rightarrow> 8 word list" where
  "bytesI16 v = [ucast v, ucast (drop_bit 8 v)]"

definition writeI32 :: "32 word \<Rightarrow> 8 word list \<Rightarrow> nat \<Rightarrow> 8 word list" where
  "writeI32 v buf off =
     buf[off := ucast v, off + 1 := ucast (drop_bit 8 v),
         off + 2 := ucast (drop_bit 16 v), off + 3 := ucast (drop_bit 24 v)]"

definition writeI16 :: "16 word \<Rightarrow> 8 word list \<Rightarrow> nat \<Rightarrow> 8 word list" where
  "writeI16 v buf off = buf[off := ucast v, off + 1 := ucast (drop_bit 8 v)]"

text \<open>
  The loop \<open>for (i = 0; i < length; ++i) writeI16(stringValue.charCodeAt(i), buf, pos + (i << 1))\<close>
  of \<open>ensureStaticString\<close>, from index \<open>i\<close> on. A string is its UTF-16 code units.
\<close>

fun writeCodeUnits :: "jsstring \<Rightarrow> nat \<Rightarrow> 8 word list \<Rightarrow> nat \<Rightarrow> 8 word list" where
  "writeCodeUnits [] i buf pos = buf"
| "writeCodeUnits (u # us) i buf pos = writeCodeUnits us (i + 1) (writeI16 u buf (pos + 2 * i)) pos"

text \<open>
  \<open>ensureStaticString\<close> (6241-6289). Sizes are natural numbers: the 32-bit overflow of
  \<open>length * 2\<close> for strings of 2^30 code units and more is not modelled.
\<close>

definition stringHeaderSize :: "Class \<Rightarrow> nat" where
  "stringHeaderSize cls = unat ((currentMemoryOffset cls + 1) AND NOT 1)"

definition stringBuffer :: "Program \<Rightarrow> Class \<Rightarrow> jsstring \<Rightarrow> 8 word list" where
  "stringBuffer prog cls stringValue =
     (let len = length stringValue;
          headerSize = stringHeaderSize cls;
          totalSize = headerSize + len * 2;
          (buf, pos) =
            (if hasGC prog
             then (writeI32 (gcHookIndex cls) (replicate (gcHeaderSize prog + totalSize) 0)
                     (gcHookOffset prog),
                   gcHeaderSize prog)
             else (replicate totalSize 0, 0));
          buf1 = writeI32 (word_of_nat len) buf (pos + offsetof_length cls)
      in writeCodeUnits stringValue 0 buf1 (pos + headerSize))"

definition ensureStaticString :: "jsstring \<Rightarrow> Compiler \<Rightarrow> error + (expr \<times> Compiler)" where
  "ensureStaticString stringValue c =
     (case stringInstance (program c) of
        None \<Rightarrow> Inl AssertionFailed
      | Some cls \<Rightarrow>
          (let prog = program c;
               (stringSegment, c1) =
                 (case stringSegments c stringValue of
                    Some seg \<Rightarrow> (seg, c)
                  | None \<Rightarrow>
                      (let (seg, c') = addMemorySegment (stringBuffer prog cls stringValue) 8 c
                       in (seg, c'\<lparr>stringSegments := (stringSegments c')(stringValue \<mapsto> seg)\<rparr>)));
               stringOffset =
                 (if hasGC prog
                  then i64_add (offset stringSegment) (i64_new (word_of_nat (gcHeaderSize prog)) 0)
                  else offset stringSegment);
               c2 = c1\<lparr>currentType := classType cls\<rparr>
           in if isWasm64 (options c)
              then Inr (I64Const (i64_low stringOffset) (i64_high stringOffset), c2)
              else if i64_is_u32 stringOffset
                   then Inr (I32Const (i64_low stringOffset), c2)
                   else Inl AssertionFailed))"

section \<open>Enums\<close>

text \<open>
  \<open>getExpressionId(e) == ExpressionId.Const\<close> is \<open>isConst e\<close>.
  \<open>module.precomputeExpression\<close> is the IR builder's constant folder, outside the
  compiler: it is the parameter \<open>precompute\<close>. The expression compiler \<open>cx\<close> takes the
  node, the contextual type, the conversion kind and the wrap mode.
\<close>

fun isConst :: "expr \<Rightarrow> bool" where
  "isConst (I32Const v) = True"
| "isConst (I64Const lo hi) = True"
| "isConst (F32Const v) = True"
| "isConst (F64Const v) = True"
| "isConst _ = False"

type_synonym compileExpression = "Expression \<Rightarrow> Type \<Rightarrow> ConversionKind \<Rightarrow> WrapMode \<Rightarrow> expr"

text \<open>
  The body of the loop of \<open>compileEnum\<close> (876-937) for one member. The loop's state is
  the compiler, \<open>previousValue\<close> and \<open>previousValueIsMut\<close>. A member that is not an
  enum value is skipped. Setting \<open>COMPILED\<close> on the value, which this function does not
  read, is left out.
\<close>

type_synonym enumLoop = "Compiler \<times> EnumValue option \<times> bool"

definition enumInitializer ::
  "compileExpression \<Rightarrow> (expr \<Rightarrow> expr) \<Rightarrow> Enum \<Rightarrow> enumLoop \<Rightarrow> EnumValue
     \<Rightarrow> expr \<times> bool \<times> Compiler" where
  "enumInitializer cx precompute element st val =
     (case st of (c, previousValue, previousValueIsMut) \<Rightarrow>
        (case value val of
           Some v \<Rightarrow>
             (let initExpr = cx v Type_i32 IMPLICIT WrapMode.NONE
              in if \<not> isConst initExpr then
                   (if CommonFlags.CONST \<in> enumFlags element then
                      (let initExpr' = precompute initExpr
                       in if \<not> isConst initExpr'
                          then (initExpr', True,
                                error In_const_enum_declarations_member_initializer_must_be_constant_expression c)
                          else (initExpr', False, c))
                    else (initExpr, True, c))
                 else (initExpr, False, c))
         | None \<Rightarrow>
             (case previousValue of
                None \<Rightarrow> (I32Const 0, False, c)
              | Some prev \<Rightarrow>
                  (let c1 = (if previousValueIsMut
                             then error Enum_member_must_have_initializer c else c);
                       initExpr = precompute
                         (Binary AddI32 (GetGlobal (valueName prev) NativeType.I32) (I32Const 1))
                   in if \<not> isConst initExpr
                      then (initExpr, True,
                            if CommonFlags.CONST \<in> enumFlags element
                            then error In_const_enum_declarations_member_initializer_must_be_constant_expression c1
                            else c1)
                      else (initExpr, False, c1)))))"

definition compileEnumMember ::
  "compileExpression \<Rightarrow> (expr \<Rightarrow> expr) \<Rightarrow> Enum \<Rightarrow> enumLoop \<Rightarrow> EnumMember \<Rightarrow> enumLoop" where
  "compileEnumMember cx precompute element st member =
     (case member of
        OTHER \<Rightarrow> st
      | ENUMVALUE val \<Rightarrow>
          (case enumInitializer cx precompute element st val of
             (initExpr, initInStart, c1) \<Rightarrow>
               if initInStart then
                 (let c2 = snd (addGlobal (valueName val) NativeType.I32 True (I32Const 0) c1)
                  in (c2\<lparr>startFunctionBody :=
                          startFunctionBody c2 @ [SetGlobal (valueName val) initExpr]\<rparr>,
                      Some val, True))
               else
                 (snd (addGlobal (valueName val) NativeType.I32
                         (CommonFlags.CONST \<notin> enumFlags element) initExpr c1),
                  Some val, False)))"

text \<open>
  \<open>compileEnum\<close> (866-941): the element comes back with \<open>COMPILED\<close> set.
  \<open>currentEnum\<close>, set during the loop and cleared after it, is left out.
\<close>

definition compileEnum ::
  "compileExpression \<Rightarrow> (expr \<Rightarrow> expr) \<Rightarrow> Enum \<Rightarrow> Compiler \<Rightarrow> bool \<times> Enum \<times> Compiler" where
  "compileEnum cx precompute element c =
     (if COMPILED \<in> enumFlags element then (True, element, c)
      else
        (let element' = element\<lparr>enumFlags := insert COMPILED (enumFlags element)\<rparr>
         in (True, element',
             fst (foldl (compileEnumMember cx precompute element') (c, None, False)
                    (members element')))))"

section \<open>Functions, the function table and trampolines\<close>

text \<open>
  \<open>ensureFunctionType\<close> (983-1011) computes the native parameter and result types of a
  signature, \<open>this\<close> first; the module's pool of function types is not modelled, the
  type itself stands for its reference.
\<close>

definition ensureFunctionType ::
  "Type list \<Rightarrow> Type \<Rightarrow> Type option \<Rightarrow> NativeType list \<times> NativeType" where
  "ensureFunctionType pts ret this =
     ((case this of Some t \<Rightarrow> [toNativeType t] | None \<Rightarrow> []) @ map toNativeType pts,
      toNativeType ret)"

definition addFunction ::
  "string \<Rightarrow> NativeType list \<times> NativeType \<Rightarrow> NativeType list \<Rightarrow> expr \<Rightarrow> Compiler \<Rightarrow> Compiler" where
  "addFunction name ty locals body c =
     c\<lparr>module := (module c)\<lparr>addedFunctions :=
          addedFunctions (module c) @ [(name, ty, locals, body)]\<rparr>\<rparr>"

definition addFunctionImport ::
  "string \<Rightarrow> NativeType list \<times> NativeType \<Rightarrow> Compiler \<Rightarrow> Compiler" where
  "addFunctionImport name ty c =
     c\<lparr>module := (module c)\<lparr>functionImports := functionImports (module c) @ [(name, ty)]\<rparr>\<rparr>"

text \<open>
  \<open>compileFunction\<close> (1014-1150). The lowering of the body (1043-1116) is outside the
  part modelled here: the parameter \<open>cb\<close> gives the statement it produces for a
  function. The mangled import names and \<open>finalize\<close> are left out. The function always
  returns \<open>true\<close> when it returns.
\<close>

definition compileFunction ::
  "(Function \<Rightarrow> expr) \<Rightarrow> ref \<Rightarrow> Compiler \<Rightarrow> error + (bool \<times> Compiler)" where
  "compileFunction cb r c =
     (case heap c r of
        None \<Rightarrow> Inl DanglingReference
      | Some instance \<Rightarrow>
          if COMPILED \<in> commonFlags instance then Inr (True, c)
          else if AMBIENT \<in> commonFlags instance \<and> BUILTIN \<in> decoratorFlags instance
          then Inl AssertionFailed
          else
            (let instance1 = instance\<lparr>commonFlags := insert COMPILED (commonFlags instance)\<rparr>;
                 c1 = (if hasBody instance1
                       then (if AMBIENT \<in> commonFlags instance1
                             then error An_implementation_cannot_be_declared_in_ambient_contexts c
                             else c)
                       else (if AMBIENT \<notin> commonFlags instance1
                             then error
                               Function_implementation_is_missing_or_not_immediately_following_the_declaration c
                             else c));
                 typeRef = ensureFunctionType (parameterTypes instance1) (returnType instance1)
                             (thisType instance1)
             in if hasBody instance1 then
                  (let c2 = addFunction (internalName instance1) typeRef
                              (map toNativeType (additionalLocals instance1)) (cb instance1) c1;
                       c3 = (if EXTERNAL \<in> decoratorFlags instance1
                             then error Operation_not_supported c2 else c2)
                   in Inr (True, c3\<lparr>heap := (heap c3)(r \<mapsto> instance1)\<rparr>))
                else
                  (let instance2 = instance1\<lparr>commonFlags :=
                                      insert MODULE_IMPORT (commonFlags instance1)\<rparr>;
                       c2 = addFunctionImport (internalName instance2) typeRef c1
                   in Inr (True, c2\<lparr>heap := (heap c2)(r \<mapsto> instance2)\<rparr>))))"

text \<open>\<open>n.toString(10)\<close> for the labels of the trampoline.\<close>

definition digit10 :: "nat \<Rightarrow> char" where
  "digit10 n = char_of (48 + n)"

function toString10 :: "nat \<Rightarrow> string" where
  "toString10 n = (if n < 10 then [digit10 n] else toString10 (n div 10) @ [digit10 (n mod 10)])"
  by pat_completeness auto
termination
  by (relation "measure id") auto

declare toString10.simps [simp del]

text \<open>
  The loop of \<open>ensureTrampoline\<close> over the optional parameters (5578-5604), for the
  first \<open>n\<close> of them: the nested blocks, the forwarded operands and the diagnostics.
  \<open>minOperands\<close> counts \<open>this\<close>, \<open>minArguments\<close> does not.
\<close>

fun trampolineInitializers ::
  "compileExpression \<Rightarrow> string list \<Rightarrow> (Type \<times> Expression option) list \<Rightarrow> nat \<Rightarrow> nat \<Rightarrow> expr
     \<Rightarrow> nat \<Rightarrow> expr \<times> expr list \<times> DiagnosticCode list" where
  "trampolineInitializers cx names ps minArguments minOperands body0 0 = (body0, [], [])"
| "trampolineInitializers cx names ps minArguments minOperands body0 (Suc i) =
     (case trampolineInitializers cx names ps minArguments minOperands body0 i of
        (body, forwarded, ds) \<Rightarrow>
          (let operandIndex = minOperands + i;
               (ty, initializer) = ps ! (minArguments + i);
               (initExpr, d) =
                 (case initializer of
                    Some init \<Rightarrow> (SetLocal operandIndex (cx init ty IMPLICIT WRAP), [])
                  | None \<Rightarrow> (Unreachable, [Optional_parameter_must_have_an_initializer]))
           in (Block (Some (names ! (i + 1))) [body, initExpr] NoneType,
               forwarded @ [GetLocal operandIndex (toNativeType ty)],
               ds @ d)))"

text \<open>
  Modelled from the spec: the constructor of \<open>Function\<close> is defined in program.ts,
  which is not part of the sources at hand. The spec: a function owns a signature, a
  list of additional locals, a flow, "an optional trampoline reference" and "an optional
  function-table index (\<open>-1\<close> = not indexed)". The new function has the name and
  the signature given, no index, no trampoline, no additional locals and a fresh flow;
  what belongs to the prototype (the declaration with its body and parameters, the
  decorators) it shares with \<open>proto\<close>, a function of the same prototype. The flags it
  takes over from the prototype are among those that \<open>ensureTrampoline\<close> sets next.
\<close>

definition newFunction ::
  "Function \<Rightarrow> string \<Rightarrow> (Type \<times> Expression option) list \<Rightarrow> nat \<Rightarrow> Type \<Rightarrow> Type option
     \<Rightarrow> Function" where
  "newFunction proto name ps required ret this =
     \<lparr>internalName = name,
      commonFlags = {},
      decoratorFlags = decoratorFlags proto,
      parameterList = ps,
      requiredParameters = required,
      returnType = ret,
      thisType = this,
      hasBody = hasBody proto,
      functionTableIndex = - 1,
      trampoline = None,
      flowFlags = 0,
      additionalLocals = []\<rparr>"

text \<open>
  \<open>ensureTrampoline\<close> (5490-5627). The new object takes the next free reference.
  \<open>assert(maxOperands - minOperands)\<close> fails when there is no optional parameter; a
  signature requires at most the parameters it has, so the difference is not negative.
  The initialisers are compiled by the parameter \<open>cx\<close>, so locals they would add to
  the trampoline are not modelled; switching \<open>currentFunction\<close> and \<open>finalize\<close> are
  left out.
\<close>

definition ensureTrampoline ::
  "compileExpression \<Rightarrow> ref \<Rightarrow> Compiler \<Rightarrow> error + (ref \<times> Compiler)" where
  "ensureTrampoline cx r c =
     (case heap c r of
        None \<Rightarrow> Inl DanglingReference
      | Some original \<Rightarrow>
          (case trampoline original of
             Some t \<Rightarrow> Inr (t, c)
           | None \<Rightarrow>
               (let originalName = internalName original;
                    ps = parameterList original;
                    commonReturnType = returnType original;
                    isInstance = INSTANCE \<in> commonFlags original;
                    minArguments = requiredParameters original;
                    minOperands = (if isInstance then minArguments + 1 else minArguments);
                    maxArguments = length ps;
                    maxOperands = (if isInstance then maxArguments + 1 else maxArguments)
                in if maxOperands \<le> minOperands then Inl AssertionFailed
                   else
                     (let numOptional = maxOperands - minOperands;
                          thisOperand = (if isInstance
                                         then [GetLocal 0 (nativeSizeType (options c))] else []);
                          required = map (\<lambda>i. GetLocal (length thisOperand + i)
                                                 (toNativeType (fst (ps ! i))))
                                       [0..<minArguments];
                          trampolineName = originalName @ ''|trampoline'';
                          t = nextRef c;
                          tramp = (newFunction original trampolineName ps maxArguments
                                     commonReturnType (thisType original))
                                    \<lparr>commonFlags :=
                                       commonFlags original \<union> {TRAMPOLINE, COMPILED}\<rparr>;
                          ofN = ''of'' @ toString10 numOptional;
                          names = map (\<lambda>i. toString10 i @ ofN) [0..<numOptional + 1];
                          body0 = Block (Some (names ! 0))
                                    [Block (Some ''outOfRange'')
                                       [Switch names ''outOfRange''
                                          (if minArguments \<noteq> 0
                                           then Binary SubI32 (GetGlobal ''~argc'' NativeType.I32)
                                                  (I32Const (word_of_nat minArguments))
                                           else GetGlobal ''~argc'' NativeType.I32)]
                                       NoneType,
                                     Unreachable]
                                    NoneType;
                          (body, forwarded, ds) =
                            trampolineInitializers cx names ps minArguments minOperands body0
                              numOptional;
                          c1 = c\<lparr>diagnostics := diagnostics c @ ds,
                                 heap := (heap c)(r \<mapsto> original\<lparr>trampoline := Some t\<rparr>, t \<mapsto> tramp),
                                 nextRef := t + 1\<rparr>;
                          c2 = addFunction trampolineName
                                 (ensureFunctionType (map fst ps) commonReturnType (thisType original))
                                 (map toNativeType (additionalLocals tramp))
                                 (Block None
                                    [body,
                                     Call originalName (thisOperand @ required @ forwarded)
                                       (toNativeType commonReturnType)]
                                    (toNativeType commonReturnType))
                                 c1
                      in Inr (t, c2)))))"

text \<open>
  \<open>ensureFunctionTableEntry\<close> (1466-1480). The local variable \<open>func\<close> is
  reassigned to the trampoline before the index is recorded: \<open>r'\<close> is the object
  \<open>func\<close> refers to at that point.
\<close>

definition ensureFunctionTableEntry ::
  "compileExpression \<Rightarrow> ref \<Rightarrow> Compiler \<Rightarrow> error + (int \<times> Compiler)" where
  "ensureFunctionTableEntry cx r c =
     (case heap c r of
        None \<Rightarrow> Inl DanglingReference
      | Some func \<Rightarrow>
          if COMPILED \<notin> commonFlags func then Inl AssertionFailed
          else if functionTableIndex func \<ge> 0 then Inr (functionTableIndex func, c)
          else
            (let index = int (length (functionTable c))
             in case (if TRAMPOLINE \<notin> commonFlags func
                        \<and> requiredParameters func < length (parameterTypes func)
                      then ensureTrampoline cx r c
                      else Inr (r, c)) of
                  Inl e \<Rightarrow> Inl e
                | Inr (r', c1) \<Rightarrow>
                    (case heap c1 r' of
                       None \<Rightarrow> Inl DanglingReference
                     | Some func' \<Rightarrow>
                         Inr (index,
                              c1\<lparr>functionTable := functionTable c1 @ [internalName func'],
                                 heap := (heap c1)(r' \<mapsto> func'\<lparr>functionTableIndex := index\<rparr>)\<rparr>))))"

text \<open>\<open>ensureArgcVar\<close> (5630-5642).\<close>

definition ensureArgcVar :: "Compiler \<Rightarrow> string \<times> Compiler" where
  "ensureArgcVar c =
     (if argcVar c = 0
      then (case addGlobal ''~argc'' NativeType.I32 True (I32Const 0) c of
              (g, c') \<Rightarrow> (''~argc'', c'\<lparr>argcVar := g\<rparr>))
      else (''~argc'', c))"

text \<open>
  The two loops of \<open>makeCallDirect\<close> over the omitted parameters (5693-5710) in one:
  the initialisers with their types when each is present and a constant value node,
  and nothing as soon as one is not.
\<close>

fun constantInitializers ::
  "(Type \<times> Expression option) list \<Rightarrow> (Type \<times> Expression) list option" where
  "constantInitializers [] = Some []"
| "constantInitializers ((ty, None) # ps) = None"
| "constantInitializers ((ty, Some init) # ps) =
     (if nodeIsConstantValue (nodeKind init)
      then map_option (\<lambda>rest. (ty, init) # rest) (constantInitializers ps)
      else None)"

text \<open>The end of \<open>makeCallDirect\<close> (5731-5735): "otherwise just call through".\<close>

definition callThrough :: "Function \<Rightarrow> expr list \<Rightarrow> Compiler \<Rightarrow> expr \<times> Compiler" where
  "callThrough instance ops c =
     (if MODULE_IMPORT \<in> commonFlags instance
      then CallImport (internalName instance) ops (toNativeType (returnType instance))
      else Call (internalName instance) ops (toNativeType (returnType instance)),
      c\<lparr>currentType := returnType instance\<rparr>)"

text \<open>
  \<open>makeCallDirect\<close> (5662-5736). \<open>operands\<close> is \<open>None\<close> for \<open>null\<close>.
  \<open>numArguments\<close> is an integer, as \<open>this\<close> is subtracted before the assertion.
  Registering the trampoline in \<open>program.instancesLookup\<close> is left out.
\<close>

definition makeCallDirect ::
  "compileExpression \<Rightarrow> (Function \<Rightarrow> expr) \<Rightarrow> ref \<Rightarrow> expr list option \<Rightarrow> Compiler
     \<Rightarrow> error + (expr \<times> Compiler)" where
  "makeCallDirect cx cb r operands c =
     (case heap c r of
        None \<Rightarrow> Inl DanglingReference
      | Some instance0 \<Rightarrow>
          (let ops = (case operands of None \<Rightarrow> [] | Some os \<Rightarrow> os);
               numOperands = length ops;
               isInstance = INSTANCE \<in> commonFlags instance0;
               numArguments = (if isInstance then int numOperands - 1 else int numOperands);
               minArguments = requiredParameters instance0;
               minOperands = (if isInstance then minArguments + 1 else minArguments);
               maxArguments = length (parameterTypes instance0);
               maxOperands = (if isInstance then maxArguments + 1 else maxArguments)
           in if numOperands < minOperands then Inl AssertionFailed
              else
                (case compileFunction cb r c of
                   Inl e \<Rightarrow> Inl e
                 | Inr (ok, c1) \<Rightarrow>
                     if \<not> ok then Inr (Unreachable, c1)
                     else
                       (case heap c1 r of
                          None \<Rightarrow> Inl DanglingReference
                        | Some instance \<Rightarrow>
                            if numOperands < maxOperands then
                              (let omitted = drop (nat numArguments) (parameterList instance)
                               in case constantInitializers omitted of
                                    Some inits \<Rightarrow>
                                      Inr (callThrough instance
                                             (ops @ map (\<lambda>(ty, init).
                                                        cx init ty IMPLICIT WrapMode.NONE) inits)
                                             c1)
                                  | None \<Rightarrow>
                                      (let ops' = ops @ map (\<lambda>(ty, init). toNativeZero ty) omitted
                                       in if MODULE_IMPORT \<notin> commonFlags instance then
                                            (case ensureTrampoline cx r c1 of
                                               Inl e \<Rightarrow> Inl e
                                             | Inr (t, c2) \<Rightarrow>
                                                 (case compileFunction cb t c2 of
                                                    Inl e \<Rightarrow> Inl e
                                                  | Inr (ok', c3) \<Rightarrow>
                                                      if \<not> ok' then Inr (Unreachable, c3)
                                                      else
                                                        (case heap c3 t of
                                                           None \<Rightarrow> Inl DanglingReference
                                                         | Some tramp \<Rightarrow>
                                                             (let nativeReturnType =
                                                                    toNativeType (returnType instance);
                                                                  c4 = c3\<lparr>heap := (heap c3)
                                                                         (t \<mapsto> tramp\<lparr>flowFlags :=
                                                                            flowFlags instance\<rparr>),
                                                                        currentType :=
                                                                          returnType instance\<rparr>;
                                                                  (argc, c5) = ensureArgcVar c4
                                                              in Inr (Block None
                                                                        [SetGlobal argc
                                                                           (I32Const
                                                                              (word_of_int numArguments)),
                                                                         Call (internalName tramp) ops'
                                                                           nativeReturnType]
                                                                        nativeReturnType,
                                                                      c5)))))
                                          else Inr (callThrough instance ops' c1)))
                            else Inr (callThrough instance ops c1)))))"

text \<open>The expression of a result, when there is one.\<close>

definition resultExpr :: "error + (expr \<times> Compiler) \<Rightarrow> expr option" where
  "resultExpr res = (case res of Inl e \<Rightarrow> None | Inr (e, c) \<Rightarrow> Some e)"

definition resultState :: "error + ('a \<times> Compiler) \<Rightarrow> Compiler option" where
  "resultState res = (case res of Inl e \<Rightarrow> None | Inr (e, c) \<Rightarrow> Some c)"

section \<open>Runs of the static memory operations\<close>

text \<open>
  The operations of the compiler that touch static memory: interning a string through
  \<open>ensureStaticString\<close> and placing a segment through \<open>addMemorySegment\<close> (as static
  arrays do). A run of them stops at the first failed assertion.
\<close>

datatype staticOp = EnsureString jsstring | AddSegment "8 word list" nat

fun runStatic :: "staticOp list \<Rightarrow> Compiler \<Rightarrow> error + Compiler" where
  "runStatic [] c = Inr c"
| "runStatic (EnsureString s # ops) c =
     (case ensureStaticString s c of
        Inl e \<Rightarrow> Inl e
      | Inr (p, c') \<Rightarrow> runStatic ops c')"
| "runStatic (AddSegment buf alignment # ops) c =
     runStatic ops (snd (addMemorySegment buf alignment c))"


text \<open>The compiler after \<open>compileEnum\<close> of the enum with the members \<open>ms\<close>.\<close>

definition enumCompiled ::
  "compileExpression \<Rightarrow> (expr \<Rightarrow> expr) \<Rightarrow> Enum \<Rightarrow> EnumMember list \<Rightarrow> Compiler \<Rightarrow> Compiler" where
  "enumCompiled cx precompute element ms c =
     snd (snd (compileEnum cx precompute (element\<lparr>members := ms\<rparr>) c))"

section \<open>Notions of the statements and concrete inputs\<close>

text \<open>
  The notions that the statements below use, and the inputs at which they are
  instantiated.
\<close>

definition Type_u8 :: Type where
  "Type_u8 = \<lparr>kind = TypeKind.U8, flags = {UNSIGNED, INTEGER, SHORT, VALUE}, size = 8\<rparr>"

definition options_wasm32 :: Options where
  "options_wasm32 = \<lparr>target = WASM32, memoryBase = 0, features = {}\<rparr>"

definition canOverflow_always :: "expr \<Rightarrow> Type \<Rightarrow> bool" where
  "canOverflow_always e t = True"

definition isAssignableTo_always :: "Type \<Rightarrow> Type \<Rightarrow> bool" where
  "isAssignableTo_always a b = True"

definition program_noGC :: Program where
  "program_noGC =
     \<lparr>hasGC = False, gcHeaderSize = 0, gcHookOffset = 0,
      stringInstance = Some \<lparr>currentMemoryOffset = 4, offsetof_length = 0,
                              classType = \<lparr>kind = TypeKind.USIZE, flags = {REFERENCE}, size = 32\<rparr>,
                              gcHookIndex = 0\<rparr>\<rparr>"

definition compiler0 :: Compiler where
  "compiler0 = newCompiler program_noGC options_wasm32 Map.empty 0"

definition calls0 :: "(8 word list \<times> nat) list" where
  "calls0 = [([1, 2, 3], 8), ([4], 4)]"


text \<open>
  The pointer constant at the end of \<open>ensureStaticString\<close> (6283-6288) for an
  address: an \<open>i64\<close> constant on WASM64, an \<open>i32\<close> constant otherwise.
\<close>

definition stringPointer :: "Compiler \<Rightarrow> 64 word \<Rightarrow> expr" where
  "stringPointer c a =
     (if isWasm64 (options c) then I64Const (i64_low a) (i64_high a) else I32Const (i64_low a))"

definition stringClassGC :: Class where
  "stringClassGC = \<lparr>currentMemoryOffset = 4, offsetof_length = 0,
                     classType = \<lparr>kind = TypeKind.USIZE, flags = {REFERENCE}, size = 32\<rparr>,
                     gcHookIndex = 3\<rparr>"

definition program_GC :: Program where
  "program_GC =
     \<lparr>hasGC = True, gcHeaderSize = 8, gcHookOffset = 4, stringInstance = Some stringClassGC\<rparr>"

definition compilerGC :: Compiler where
  "compilerGC = newCompiler program_GC options_wasm32 Map.empty 0"

definition string_hi :: jsstring where
  "string_hi = [0x68, 0x69]"

definition compilerGC1 :: Compiler where
  "compilerGC1 =
     (case ensureStaticString string_hi compilerGC of Inr (p, c) \<Rightarrow> c | Inl e \<Rightarrow> compilerGC)"

definition cx_opaque :: compileExpression where
  "cx_opaque node ty conversionKind wrapMode = Opaque 0"

definition precompute_id :: "expr \<Rightarrow> expr" where
  "precompute_id e = e"

definition enumValue_A :: EnumValue where
  "enumValue_A = \<lparr>valueName = ''E.A'', value = Some (Node CALL 0)\<rparr>"

definition enumValue_B :: EnumValue where
  "enumValue_B = \<lparr>valueName = ''E.B'', value = None\<rparr>"

definition enum_E :: Enum where
  "enum_E = \<lparr>enumFlags = {}, members = [ENUMVALUE enumValue_A, ENUMVALUE enumValue_B]\<rparr>"

definition function_f :: Function where
  "function_f =
     \<lparr>internalName = ''f'',
      commonFlags = {COMPILED},
      decoratorFlags = {},
      parameterList = [(Type_i32, None), (Type_i32, Some (Node LITERAL 0))],
      requiredParameters = 1,
      returnType = Type_void,
      thisType = None,
      hasBody = True,
      functionTableIndex = - 1,
      trampoline = None,
      flowFlags = 0,
      additionalLocals = []\<rparr>"

definition compilerF :: Compiler where
  "compilerF = newCompiler program_noGC options_wasm32 [0 \<mapsto> function_f] 1"

definition compilerF1 :: Compiler where
  "compilerF1 =
     (case ensureFunctionTableEntry cx_opaque 0 compilerF of
        Inr (i, c) \<Rightarrow> c | Inl e \<Rightarrow> compilerF)"

definition function_imp :: Function where
  "function_imp =
     \<lparr>internalName = ''g'',
      commonFlags = {COMPILED, AMBIENT, MODULE_IMPORT},
      decoratorFlags = {},
      parameterList = [(Type_i32, None), (Type_i32, None)],
      requiredParameters = 1,
      returnType = Type_i32,
      thisType = None,
      hasBody = False,
      functionTableIndex = - 1,
      trampoline = None,
      flowFlags = 0,
      additionalLocals = []\<rparr>"

definition compilerImp :: Compiler where
  "compilerImp = newCompiler program_noGC options_wasm32 [0 \<mapsto> function_imp] 1"

definition cb_opaque :: "Function \<Rightarrow> expr" where
  "cb_opaque f = Opaque 1"

text \<open>The operands of a call: \<open>null\<close> is no operand.\<close>

definition operandsOf :: "expr list option \<Rightarrow> expr list" where
  "operandsOf operands = (case operands of None \<Rightarrow> [] | Some os \<Rightarrow> os)"

text \<open>One operand for \<open>this\<close> when the function is an instance method.\<close>

definition thisOperands :: "Function \<Rightarrow> nat" where
  "thisOperands f = (if INSTANCE \<in> commonFlags f then 1 else 0)"

text \<open>The parameters a call with \<open>n\<close> operands leaves out.\<close>

definition omittedParameters :: "Function \<Rightarrow> nat \<Rightarrow> (Type \<times> Expression option) list" where
  "omittedParameters f n = drop (n - thisOperands f) (parameterList f)"

text \<open>The name of the trampoline that \<open>ensureTrampoline\<close> gives for a function.\<close>

definition trampolineName :: "Compiler \<Rightarrow> Function \<Rightarrow> string" where
  "trampolineName c f =
     (case trampoline f of
        None \<Rightarrow> internalName f @ ''|trampoline''
      | Some t \<Rightarrow> (case heap c t of Some tr \<Rightarrow> internalName tr | None \<Rightarrow> []))"

definition function_t :: Function where
  "function_t =
     \<lparr>internalName = ''t'',
      commonFlags = {COMPILED},
      decoratorFlags = {},
      parameterList = [(Type_i32, None), (Type_i32, Some (Node CALL 0))],
      requiredParameters = 1,
      returnType = Type_i32,
      thisType = None,
      hasBody = True,
      functionTableIndex = - 1,
      trampoline = None,
      flowFlags = 0,
      additionalLocals = []\<rparr>"

definition compilerT :: Compiler where
  "compilerT = newCompiler program_noGC options_wasm32 [0 \<mapsto> function_t] 1"




definition string_yo :: jsstring where
  "string_yo = [0x79, 0x6f]"

definition opsGC :: "staticOp list" where
  "opsGC = [EnsureString string_yo, AddSegment [1] 8]"

definition compilerGC2 :: Compiler where
  "compilerGC2 = (case runStatic opsGC compilerGC1 of Inr c \<Rightarrow> c | Inl e \<Rightarrow> compilerGC1)"

definition enumValue_C :: EnumValue where
  "enumValue_C = \<lparr>valueName = ''E.C'', value = None\<rparr>"

section \<open>Properties of the small integer wrap and of conversions\<close>

text \<open>
  Claim C8. \<open>ensureSmallIntegerWrap\<close> returns the expression unchanged when the
  flow says it cannot overflow the type. Otherwise \<open>i8\<close> and \<open>i16\<close> get the
  sign-extension unary operation under SIGN_EXTENSION and a shift-left, shift-right
  pair by \<open>32 - width\<close> without it; \<open>u8\<close>, \<open>u16\<close> and \<open>bool\<close> are masked with
  \<open>0xff\<close>, \<open>0xffff\<close> and \<open>1\<close>; every other type leaves the expression as it is.
\<close>

theorem ensureSmallIntegerWrap_cases:
  "(\<not> canOverflow e t \<longrightarrow> ensureSmallIntegerWrap opts canOverflow e t = e)
   \<and> (canOverflow e t \<and> kind t = TypeKind.I8 \<longrightarrow>
        ensureSmallIntegerWrap opts canOverflow e t =
          (if hasFeature opts SIGN_EXTENSION then Unary ExtendI8ToI32 e
           else Binary ShrI32 (Binary ShlI32 e (I32Const (32 - 8))) (I32Const (32 - 8))))
   \<and> (canOverflow e t \<and> kind t = TypeKind.I16 \<longrightarrow>
        ensureSmallIntegerWrap opts canOverflow e t =
          (if hasFeature opts SIGN_EXTENSION then Unary ExtendI16ToI32 e
           else Binary ShrI32 (Binary ShlI32 e (I32Const (32 - 16))) (I32Const (32 - 16))))
   \<and> (canOverflow e t \<and> kind t = TypeKind.U8 \<longrightarrow>
        ensureSmallIntegerWrap opts canOverflow e t = Binary AndI32 e (I32Const 0xff))
   \<and> (canOverflow e t \<and> kind t = TypeKind.U16 \<longrightarrow>
        ensureSmallIntegerWrap opts canOverflow e t = Binary AndI32 e (I32Const 0xffff))
   \<and> (canOverflow e t \<and> kind t = TypeKind.BOOL \<longrightarrow>
        ensureSmallIntegerWrap opts canOverflow e t = Binary AndI32 e (I32Const 1))
   \<and> (kind t \<notin> {TypeKind.I8, TypeKind.I16, TypeKind.U8, TypeKind.U16, TypeKind.BOOL} \<longrightarrow>
        ensureSmallIntegerWrap opts canOverflow e t = e)"
  by (cases "kind t") (simp_all add: ensureSmallIntegerWrap_def)

text \<open>At a \<open>u8\<close> local that can overflow, the mask is \<open>0xff\<close>.\<close>

theorem ensureSmallIntegerWrap_cases_witness:
  "canOverflow_always (GetLocal 0 NativeType.I32) Type_u8 \<and> kind Type_u8 = TypeKind.U8
   \<and> ensureSmallIntegerWrap options_wasm32 canOverflow_always (GetLocal 0 NativeType.I32) Type_u8
       = Binary AndI32 (GetLocal 0 NativeType.I32) (I32Const 0xff)"
  using ensureSmallIntegerWrap_cases
    [of canOverflow_always "GetLocal 0 NativeType.I32" Type_u8 options_wasm32]
  by (simp add: canOverflow_always_def Type_u8_def)

text \<open>
  Claim C7. \<open>convertExpression\<close> from \<open>void\<close> to \<open>void\<close> fails an assertion. With a
  conversion kind other than \<open>NONE\<close> (the function's first assertion), a value of a
  type other than \<open>void\<close> converted to \<open>void\<close> is dropped and no diagnostic is
  emitted, and \<open>void\<close> converted to another type emits "type is not assignable" and
  gives an unreachable.
\<close>

theorem convertExpression_void:
  "(kind fromType = TypeKind.VOID \<and> kind toType = TypeKind.VOID \<longrightarrow>
      convertExpression isAssignableTo canOverflow c e fromType toType conversionKind wrapMode
        = Inl AssertionFailed)
   \<and> (conversionKind \<noteq> ConversionKind.NONE \<and> kind fromType \<noteq> TypeKind.VOID
        \<and> kind toType = TypeKind.VOID \<longrightarrow>
      convertExpression isAssignableTo canOverflow c e fromType toType conversionKind wrapMode
        = Inr (Drop e, c))
   \<and> (conversionKind \<noteq> ConversionKind.NONE \<and> kind fromType = TypeKind.VOID
        \<and> kind toType \<noteq> TypeKind.VOID \<longrightarrow>
      convertExpression isAssignableTo canOverflow c e fromType toType conversionKind wrapMode
        = Inr (Unreachable,
               c\<lparr>diagnostics := diagnostics c @ [Type_0_is_not_assignable_to_type_1]\<rparr>))"
  by (simp add: convertExpression_def error_def)

text \<open>A \<open>u8\<close> local converted to \<open>void\<close> implicitly is dropped.\<close>

theorem convertExpression_void_witness:
  "IMPLICIT \<noteq> ConversionKind.NONE \<and> kind Type_u8 \<noteq> TypeKind.VOID
   \<and> kind Type_void = TypeKind.VOID
   \<and> convertExpression isAssignableTo_always canOverflow_always compiler0
         (GetLocal 0 NativeType.I32) Type_u8 Type_void IMPLICIT WRAP
       = Inr (Drop (GetLocal 0 NativeType.I32), compiler0)"
  using convertExpression_void
    [of Type_u8 Type_void isAssignableTo_always canOverflow_always compiler0
        "GetLocal 0 NativeType.I32" IMPLICIT WRAP]
  by (simp add: Type_u8_def Type_void_def)

section \<open>The unsigned right shift allocates its node twice\<close>

text \<open>
  Claim C3 says that an unsigned right shift whose common operand type is \<open>u8\<close>,
  \<open>u16\<close> or \<open>bool\<close> creates exactly one \<open>ShrU32\<close> node. The switch creates two:
  the body of these cases has no \<open>break\<close> and runs on into the body of the 32-bit
  cases, which creates the node again and assigns it over the first.
\<close>

theorem unsignedShift_small_creates_two:
  "map_sum id (\<lambda>(e, log, ds). countShrU32 log)
     (compileUnsignedShift opts canOverflow leftExpr leftType rightExpr (t\<lparr>kind := TypeKind.U8\<rparr>) [])
     = Inr 2
   \<and> map_sum id (\<lambda>(e, log, ds). countShrU32 log)
     (compileUnsignedShift opts canOverflow leftExpr leftType rightExpr (t\<lparr>kind := TypeKind.U16\<rparr>) [])
     = Inr 2
   \<and> map_sum id (\<lambda>(e, log, ds). countShrU32 log)
     (compileUnsignedShift opts canOverflow leftExpr leftType rightExpr (t\<lparr>kind := TypeKind.BOOL\<rparr>) [])
     = Inr 2"
  by (simp add: compileUnsignedShift_def shrU_switch_def shrU_case_U8_def shrU_case_I32_def
      createBinary_def countShrU32_def)

section \<open>Static memory: offsets and pages\<close>

lemma round_up_bounds:
  fixes x a :: nat
  assumes "0 < a"
  shows "a dvd ((x + (a - 1)) div a) * a"
    and "x \<le> ((x + (a - 1)) div a) * a"
    and "((x + (a - 1)) div a) * a < x + a"
    and "((x + (a - 1)) div a) * a \<le> x + (a - 1)"
proof -
  let ?q = "(x + (a - 1)) div a"
  have eq: "x + (a - 1) = ?q * a + (x + (a - 1)) mod a"
    by simp
  have m: "(x + (a - 1)) mod a < a"
    using assms by simp
  show "a dvd ?q * a" by simp
  show "?q * a \<le> x + (a - 1)"
    using eq by linarith
  then show "?q * a < x + a"
    using assms by linarith
  show "x \<le> ?q * a"
    using eq m by linarith
qed

lemma unat_i64_align:
  assumes "0 < a" and "unat v + (a - 1) < 2 ^ 64"
  shows "unat (i64_align v a) = ((unat v + (a - 1)) div a) * a"
proof -
  have "((unat v + (a - 1)) div a) * a < 2 ^ 64"
    using round_up_bounds(4) [OF assms(1), of "unat v"] assms(2) by linarith
  then show ?thesis
    unfolding i64_align_def by (intro of_nat_inverse) simp_all
qed

lemma unat_ucast_32_64: "unat (ucast (w :: 32 word) :: 64 word) = unat w"
proof -
  have "unat w < 2 ^ 32"
    using unsigned_less [of w] by simp
  then have "unat w < 2 ^ 64"
    by (rule less_trans) simp
  then show ?thesis
    by (simp add: unsigned_ucast_eq take_bit_nat_eq_self)
qed

lemma unat_i64_new_length:
  assumes "n < 2 ^ 32"
  shows "unat (i64_new (word_of_nat n) 0) = n"
proof -
  have "unat (word_of_nat n :: 32 word) = n"
    using assms by (intro of_nat_inverse) simp_all
  then show ?thesis
    by (simp add: i64_new_def unat_ucast_32_64)
qed

lemma addMemorySegment_step:
  assumes "0 < a" and "length buf < 2 ^ 32"
    and "unat (memoryOffset c) + (a - 1) + length buf < 2 ^ 64"
  shows "unat (memoryOffset (snd (addMemorySegment buf a c)))
           = unat (offset (fst (addMemorySegment buf a c))) + length buf"
    and "unat (offset (fst (addMemorySegment buf a c)))
           = ((unat (memoryOffset c) + (a - 1)) div a) * a"
    and "memorySegments (snd (addMemorySegment buf a c))
           = memorySegments c @ [fst (addMemorySegment buf a c)]"
    and "buffer (fst (addMemorySegment buf a c)) = buf"
proof -
  have al: "unat (i64_align (memoryOffset c) a) = ((unat (memoryOffset c) + (a - 1)) div a) * a"
    using assms by (intro unat_i64_align) auto
  have le: "((unat (memoryOffset c) + (a - 1)) div a) * a \<le> unat (memoryOffset c) + (a - 1)"
    using round_up_bounds(4) [OF assms(1)] .
  have "unat (i64_align (memoryOffset c) a) + unat (i64_new (word_of_nat (length buf)) 0) < 2 ^ 64"
    using al le assms unat_i64_new_length [of "length buf"] by linarith
  then have "unat (i64_align (memoryOffset c) a + i64_new (word_of_nat (length buf)) 0)
      = unat (i64_align (memoryOffset c) a) + length buf"
    using assms(2) by (simp add: unat_add_lem [THEN iffD1] unat_i64_new_length)
  then show "unat (memoryOffset (snd (addMemorySegment buf a c)))
           = unat (offset (fst (addMemorySegment buf a c))) + length buf"
    by (simp add: addMemorySegment_def Let_def i64_add_def)
  show "unat (offset (fst (addMemorySegment buf a c)))
           = ((unat (memoryOffset c) + (a - 1)) div a) * a"
    using al by (simp add: addMemorySegment_def Let_def)
  show "memorySegments (snd (addMemorySegment buf a c))
           = memorySegments c @ [fst (addMemorySegment buf a c)]"
    by (simp add: addMemorySegment_def Let_def)
  show "buffer (fst (addMemorySegment buf a c)) = buf"
    by (simp add: addMemorySegment_def Let_def)
qed

lemma addMemorySegment_monotone:
  assumes "0 < a" and "length buf < 2 ^ 32"
    and "unat (memoryOffset c) + (a - 1) + length buf < 2 ^ 64"
  shows "memoryOffset c \<le> memoryOffset (snd (addMemorySegment buf a c))"
proof -
  have "unat (memoryOffset c) \<le> unat (offset (fst (addMemorySegment buf a c)))"
    using addMemorySegment_step(2) [OF assms] round_up_bounds(2) [OF assms(1)] by simp
  then have "unat (memoryOffset c) \<le> unat (memoryOffset (snd (addMemorySegment buf a c)))"
    using addMemorySegment_step(1) [OF assms] by simp
  then show ?thesis
    by (simp add: word_le_nat_alt)
qed

lemma addMemorySegments_append:
  "addMemorySegments (xs @ ys) c = addMemorySegments ys (addMemorySegments xs c)"
  by (induction xs arbitrary: c) auto

lemma fits64_append:
  "fits64 (xs @ ys) c \<longleftrightarrow> fits64 xs c \<and> fits64 ys (addMemorySegments xs c)"
  by (induction xs arbitrary: c) auto

lemma addMemorySegments_monotone:
  "fits64 calls c \<Longrightarrow> memoryOffset c \<le> memoryOffset (addMemorySegments calls c)"
proof (induction calls arbitrary: c)
  case Nil
  then show ?case by simp
next
  case (Cons call calls)
  obtain buf a where call: "call = (buf, a)"
    by (cases call)
  from Cons.prems call have step: "0 < a" "length buf < 2 ^ 32"
      "unat (memoryOffset c) + (a - 1) + length buf < 2 ^ 64"
    and rest: "fits64 calls (snd (addMemorySegment buf a c))"
    by auto
  have "memoryOffset c \<le> memoryOffset (snd (addMemorySegment buf a c))"
    using step by (rule addMemorySegment_monotone)
  also have "\<dots> \<le> memoryOffset (addMemorySegments calls (snd (addMemorySegment buf a c)))"
    using rest by (rule Cons.IH)
  finally show ?case
    by (simp add: call)
qed

lemma compiler0_fields:
  "memoryOffset compiler0 = 8"
  "memorySegments compiler0 = []"
  "options compiler0 = options_wasm32"
  by (simp_all add: compiler0_def newCompiler_def options_wasm32_def i64_new_def)


text \<open>
  Claim C9. Over a sequence of \<open>addMemorySegment\<close> calls that stays within the 64 bits
  of the offset (\<open>fits64\<close>: positive alignments, buffer lengths below 2^32, no
  wrap-around), \<open>memoryOffset\<close> never decreases from one point of the sequence to a later
  one. The segment of each call is appended, starts at the previous \<open>memoryOffset\<close>
  aligned up to the requested alignment (the least multiple of it that is not below the
  offset), and after the call \<open>memoryOffset\<close> is that start plus the length of the
  buffer.
\<close>

theorem addMemorySegment_sequence:
  assumes "fits64 calls c"
  shows "(\<forall>n m. n \<le> m \<and> m \<le> length calls \<longrightarrow>
            memoryOffset (addMemorySegments (take n calls) c)
              \<le> memoryOffset (addMemorySegments (take m calls) c))
       \<and> (\<forall>k < length calls.
            (let before = addMemorySegments (take k calls) c;
                 (buf, alignment) = calls ! k;
                 (segment, after) = addMemorySegment buf alignment before
             in addMemorySegments (take (Suc k) calls) c = after
                \<and> memorySegments after = memorySegments before @ [segment]
                \<and> buffer segment = buf
                \<and> alignment dvd unat (offset segment)
                \<and> unat (memoryOffset before) \<le> unat (offset segment)
                \<and> unat (offset segment) < unat (memoryOffset before) + alignment
                \<and> unat (memoryOffset after) = unat (offset segment) + length buf))"
proof (intro conjI allI impI)
  fix n m
  assume nm: "n \<le> m \<and> m \<le> length calls"
  then have split: "take m calls = take n calls @ take (m - n) (drop n calls)"
    by (metis le_add_diff_inverse take_add)
  have "fits64 (take m calls) c"
    using assms fits64_append [of "take m calls" "drop m calls" c] by simp
  then have "fits64 (take (m - n) (drop n calls)) (addMemorySegments (take n calls) c)"
    by (simp add: split fits64_append)
  then show "memoryOffset (addMemorySegments (take n calls) c)
           \<le> memoryOffset (addMemorySegments (take m calls) c)"
    by (simp add: split addMemorySegments_append addMemorySegments_monotone)
next
  fix k
  assume k: "k < length calls"
  define before where "before = addMemorySegments (take k calls) c"
  obtain buf a where call: "calls ! k = (buf, a)"
    by (cases "calls ! k")
  have tk: "take (Suc k) calls = take k calls @ [(buf, a)]"
    using k call by (simp add: take_Suc_conv_app_nth)
  have "fits64 (take (Suc k) calls) c"
    using assms fits64_append [of "take (Suc k) calls" "drop (Suc k) calls" c] by simp
  then have "fits64 [(buf, a)] before"
    by (auto simp add: tk fits64_append before_def)
  then have step: "0 < a" "length buf < 2 ^ 32"
    "unat (memoryOffset before) + (a - 1) + length buf < 2 ^ 64"
    by auto
  note s = addMemorySegment_step [OF step]
  have run: "addMemorySegments (take (Suc k) calls) c = snd (addMemorySegment buf a before)"
    by (simp add: tk addMemorySegments_append before_def)
  show "(let before = addMemorySegments (take k calls) c;
             (buf, alignment) = calls ! k;
             (segment, after) = addMemorySegment buf alignment before
         in addMemorySegments (take (Suc k) calls) c = after
            \<and> memorySegments after = memorySegments before @ [segment]
            \<and> buffer segment = buf
            \<and> alignment dvd unat (offset segment)
            \<and> unat (memoryOffset before) \<le> unat (offset segment)
            \<and> unat (offset segment) < unat (memoryOffset before) + alignment
            \<and> unat (memoryOffset after) = unat (offset segment) + length buf)"
    unfolding before_def [symmetric] call Let_def
    using s run round_up_bounds [OF step(1), of "unat (memoryOffset before)"] step(1)
    by (simp add: case_prod_beta)
qed

text \<open>Two segments from a fresh compiler: they start at 8 and 12, and the offset ends at 13.\<close>

theorem addMemorySegment_sequence_witness:
  "fits64 calls0 compiler0
   \<and> memoryOffset (addMemorySegments (take 0 calls0) compiler0)
       \<le> memoryOffset (addMemorySegments (take 2 calls0) compiler0)
   \<and> map offset (memorySegments (addMemorySegments calls0 compiler0)) = [8, 12]
   \<and> memoryOffset (addMemorySegments calls0 compiler0) = 13"
proof -
  have h: "fits64 calls0 compiler0"
    by (simp add: calls0_def compiler0_fields addMemorySegment_def i64_align_def
        i64_add_def i64_new_def Let_def)
  have "(0::nat) \<le> 2 \<and> 2 \<le> length calls0"
    by (simp add: calls0_def)
  then have "memoryOffset (addMemorySegments (take 0 calls0) compiler0)
       \<le> memoryOffset (addMemorySegments (take 2 calls0) compiler0)"
    using addMemorySegment_sequence [OF h] by blast
  moreover have "memoryOffset (addMemorySegments calls0 compiler0) = 13"
    by (simp add: calls0_def compiler0_fields addMemorySegment_def i64_align_def
        i64_add_def i64_new_def Let_def)
  moreover have "map offset (memorySegments (addMemorySegments calls0 compiler0)) = [8, 12]"
    by (simp add: calls0_def compiler0_fields addMemorySegment_def i64_align_def
        i64_add_def i64_new_def Let_def)
  ultimately show ?thesis
    using h by simp
qed




section \<open>Static strings\<close>

lemma length_writeI32 [simp]: "length (writeI32 v buf off) = length buf"
  by (simp add: writeI32_def)

lemma length_writeI16 [simp]: "length (writeI16 v buf off) = length buf"
  by (simp add: writeI16_def)

lemma length_writeCodeUnits [simp]: "length (writeCodeUnits us i buf pos) = length buf"
  by (induction us arbitrary: i buf) simp_all

lemma list_update_as_take_drop:
  "n < length xs \<Longrightarrow> xs[n := x] = take n xs @ x # drop (Suc n) xs"
  by (simp add: upd_conv_take_nth_drop)

lemma writeI16_layout:
  assumes "off + 2 \<le> length buf"
  shows "writeI16 v buf off = take off buf @ bytesI16 v @ drop (off + 2) buf"
proof (rule nth_equalityI)
  show "length (writeI16 v buf off) = length (take off buf @ bytesI16 v @ drop (off + 2) buf)"
    using assms by (simp add: bytesI16_def)
next
  fix i
  assume "i < length (writeI16 v buf off)"
  then have i: "i < length buf" by simp
  consider "i < off" | "i = off" | "i = off + 1" | "off + 2 \<le> i"
    by linarith
  then show "writeI16 v buf off ! i = (take off buf @ bytesI16 v @ drop (off + 2) buf) ! i"
  proof cases
    case 1
    then show ?thesis using i assms by (simp add: writeI16_def nth_append)
  next
    case 2
    then show ?thesis using i assms by (simp add: writeI16_def nth_append bytesI16_def)
  next
    case 3
    then show ?thesis using i assms by (simp add: writeI16_def nth_append bytesI16_def)
  next
    case 4
    then have "i - off - 2 + (off + 2) = i" by simp
    then show ?thesis using 4 i assms
      by (simp add: writeI16_def nth_append bytesI16_def nth_Cons')
  qed
qed

lemma writeI32_layout:
  assumes "off + 4 \<le> length buf"
  shows "writeI32 v buf off = take off buf @ bytesI32 v @ drop (off + 4) buf"
proof (rule nth_equalityI)
  show "length (writeI32 v buf off) = length (take off buf @ bytesI32 v @ drop (off + 4) buf)"
    using assms by (simp add: bytesI32_def)
next
  fix i
  assume "i < length (writeI32 v buf off)"
  then have i: "i < length buf" by simp
  consider "i < off" | "i = off" | "i = off + 1" | "i = off + 2" | "i = off + 3" | "off + 4 \<le> i"
    by linarith
  then show "writeI32 v buf off ! i = (take off buf @ bytesI32 v @ drop (off + 4) buf) ! i"
  proof cases
    case 1
    then show ?thesis using i assms by (simp add: writeI32_def nth_append)
  next
    case 2
    then show ?thesis using i assms by (simp add: writeI32_def nth_append bytesI32_def)
  next
    case 3
    then show ?thesis using i assms by (simp add: writeI32_def nth_append bytesI32_def)
  next
    case 4
    then show ?thesis using i assms by (simp add: writeI32_def nth_append bytesI32_def)
  next
    case 5
    then show ?thesis using i assms
      by (simp add: writeI32_def nth_append bytesI32_def numeral_3_eq_3)
  next
    case 6
    then show ?thesis using i assms
      by (simp add: writeI32_def nth_append bytesI32_def nth_Cons')
  qed
qed

lemma length_bytesI16 [simp]: "length (bytesI16 v) = 2"
  by (simp add: bytesI16_def)

lemma length_bytesI32 [simp]: "length (bytesI32 v) = 4"
  by (simp add: bytesI32_def)

lemma length_concat_bytesI16 [simp]: "length (concat (map bytesI16 us)) = 2 * length us"
  by (induction us) simp_all

lemma writeCodeUnits_layout:
  "length buf = pos + 2 * (i + length us) \<Longrightarrow>
   writeCodeUnits us i buf pos = take (pos + 2 * i) buf @ concat (map bytesI16 us)"
proof (induction us arbitrary: i buf)
  case Nil
  then show ?case by simp
next
  case (Cons u us)
  let ?buf = "writeI16 u buf (pos + 2 * i)"
  have fit: "pos + 2 * i + 2 \<le> length buf"
    using Cons.prems by simp
  have w: "?buf = take (pos + 2 * i) buf @ bytesI16 u @ drop (pos + 2 * i + 2) buf"
    using fit by (rule writeI16_layout)
  have len: "length ?buf = pos + 2 * (i + 1 + length us)"
    using Cons.prems by simp
  have "take (pos + 2 * (i + 1)) ?buf = take (pos + 2 * i) buf @ bytesI16 u"
    using fit by (subst w) (simp add: min_absorb2)
  then show ?case
    using Cons.IH [OF len] by simp
qed

lemma window_before:
  "k + n \<le> length pre \<Longrightarrow> take n (drop k (pre @ rest)) = take n (drop k pre)"
  by simp

lemma window_written:
  "length pre = k \<Longrightarrow> length w = n \<Longrightarrow> take n (drop k (pre @ w @ post)) = w"
  by simp

lemma window_take:
  "k + n \<le> m \<Longrightarrow> take n (drop k (take m xs)) = take n (drop k xs)"
  by (simp add: drop_take)

lemma stringBuffer_layout:
  fixes prog :: Program and cls :: Class and s :: jsstring
  assumes gc: "hasGC prog \<longrightarrow> gcHookOffset prog + 4 \<le> gcHeaderSize prog"
    and len: "offsetof_length cls + 4 \<le> stringHeaderSize cls"
  defines "hdr \<equiv> (if hasGC prog then gcHeaderSize prog else 0)"
  defines "b \<equiv> stringBuffer prog cls s"
  shows "length b = hdr + stringHeaderSize cls + 2 * length s"
    and "hasGC prog \<longrightarrow> take 4 (drop (gcHookOffset prog) b) = bytesI32 (gcHookIndex cls)"
    and "take 4 (drop (hdr + offsetof_length cls) b) = bytesI32 (word_of_nat (length s))"
    and "drop (hdr + stringHeaderSize cls) b = concat (map bytesI16 s)"
proof -
  let ?H = "stringHeaderSize cls"
  let ?n = "hdr + (?H + length s * 2)"
  let ?z = "replicate ?n (0 :: 8 word)"
  define buf0 where "buf0 = (if hasGC prog then writeI32 (gcHookIndex cls) ?z (gcHookOffset prog) else ?z)"
  define buf1 where "buf1 = writeI32 (word_of_nat (length s)) buf0 (hdr + offsetof_length cls)"
  have b: "b = writeCodeUnits s 0 buf1 (hdr + ?H)"
    unfolding b_def stringBuffer_def Let_def buf1_def buf0_def hdr_def
    by (cases "hasGC prog") simp_all
  have l0: "length buf0 = ?n"
    unfolding buf0_def
    by (cases "hasGC prog") (simp_all only: if_True if_False length_writeI32 length_replicate)
  have l1: "length buf1 = ?n"
    unfolding buf1_def by (simp only: length_writeI32 l0)
  show lb: "length b = hdr + ?H + 2 * length s"
    unfolding b by (simp only: length_writeCodeUnits l1)
  have b': "b = take (hdr + ?H) buf1 @ concat (map bytesI16 s)"
    unfolding b using l1 writeCodeUnits_layout [of buf1 "hdr + ?H" 0 s] by simp
  show "drop (hdr + ?H) b = concat (map bytesI16 s)"
    by (simp add: b' l1)
  have w1: "buf1 = take (hdr + offsetof_length cls) buf0
        @ bytesI32 (word_of_nat (length s)) @ drop (hdr + offsetof_length cls + 4) buf0"
    unfolding buf1_def using len l0 by (intro writeI32_layout) simp
  have "take 4 (drop (hdr + offsetof_length cls) b)
      = take 4 (drop (hdr + offsetof_length cls) (take (hdr + ?H) buf1))"
    unfolding b' using len l1 by (intro window_before) simp
  also have "\<dots> = take 4 (drop (hdr + offsetof_length cls) buf1)"
    using len by (intro window_take) simp
  also have "\<dots> = bytesI32 (word_of_nat (length s))"
    by (subst w1, rule window_written) (use len l0 in simp_all)
  finally show "take 4 (drop (hdr + offsetof_length cls) b) = bytesI32 (word_of_nat (length s))" .
  show "hasGC prog \<longrightarrow> take 4 (drop (gcHookOffset prog) b) = bytesI32 (gcHookIndex cls)"
  proof
    assume g: "hasGC prog"
    then have fit: "gcHookOffset prog + 4 \<le> gcHeaderSize prog" and h: "hdr = gcHeaderSize prog"
      using gc by (simp_all add: hdr_def)
    have z: "gcHookOffset prog + 4 \<le> length ?z"
      using fit h by simp
    have w0: "buf0 = take (gcHookOffset prog) ?z @ bytesI32 (gcHookIndex cls)
          @ drop (gcHookOffset prog + 4) ?z"
      unfolding buf0_def if_P [OF g] using z by (rule writeI32_layout)
    have "take 4 (drop (gcHookOffset prog) b) = take 4 (drop (gcHookOffset prog) (take (hdr + ?H) buf1))"
      unfolding b' using fit h l1 by (intro window_before) simp
    also have "\<dots> = take 4 (drop (gcHookOffset prog) buf1)"
      using fit h by (intro window_take) simp
    also have "\<dots> = take 4 (drop (gcHookOffset prog) (take (hdr + offsetof_length cls) buf0))"
      by (subst w1, rule window_before) (use fit h l0 in simp)
    also have "\<dots> = take 4 (drop (gcHookOffset prog) buf0)"
      using fit h by (intro window_take) simp
    also have "\<dots> = bytesI32 (gcHookIndex cls)"
      by (subst w0, rule window_written) (use fit h in simp_all)
    finally show "take 4 (drop (gcHookOffset prog) b) = bytesI32 (gcHookIndex cls)" .
  qed
qed


lemma i64_new_of_nat:
  assumes "n < 2 ^ 32"
  shows "i64_new (word_of_nat n) 0 = word_of_nat n"
proof -
  have "unat (i64_new (word_of_nat n) 0) = n"
    using assms by (rule unat_i64_new_length)
  moreover have "unat (word_of_nat n :: 64 word) = n"
    using assms by (intro of_nat_inverse) simp_all
  ultimately show ?thesis
    by (simp add: word_unat_eq_iff)
qed

lemma ensureStaticString_fresh:
  assumes cls: "stringInstance (program c) = Some cls"
    and fresh: "stringSegments c s = None"
    and ret: "ensureStaticString s c = Inr (p, c1)"
  defines "seg \<equiv> fst (addMemorySegment (stringBuffer (program c) cls s) 8 c)"
  shows "c1 = (snd (addMemorySegment (stringBuffer (program c) cls s) 8 c))
               \<lparr>stringSegments := (stringSegments c)(s \<mapsto> seg), currentType := classType cls\<rparr>"
    and "p = stringPointer c
               (if hasGC (program c)
                then offset seg + i64_new (word_of_nat (gcHeaderSize (program c))) 0
                else offset seg)"
  using ret
  by (auto simp add: ensureStaticString_def cls fresh Let_def seg_def addMemorySegment_def
      stringPointer_def i64_add_def split: if_splits)

lemma ensureStaticString_again:
  assumes cls: "stringInstance (program c) = Some cls"
    and ret: "ensureStaticString s c = Inr (p, c1)"
  shows "ensureStaticString s c1 = Inr (p, c1)"
proof (cases "stringSegments c s")
  case None
  note f = ensureStaticString_fresh [OF cls None ret]
  show ?thesis
    using ret
    by (subst (1 2) f(1))
       (auto simp add: ensureStaticString_def cls None Let_def addMemorySegment_def
          split: if_splits)
next
  case (Some seg)
  have c1: "c1 = c\<lparr>currentType := classType cls\<rparr>"
    using ret by (auto simp add: ensureStaticString_def cls Some Let_def split: if_splits)
  show ?thesis
    using ret unfolding c1
    by (auto simp add: ensureStaticString_def cls Some Let_def split: if_splits)
qed

text \<open>
  The first call for a string not seen before: it appends exactly one segment and files
  it under the content, the bytes of the segment are the GC header with the hook index,
  the string header with the length and the code units, and the pointer is the address
  of the segment plus the size of the GC header. A second call on the compiler that the
  first returned gives the same result.
\<close>

lemma ensureStaticString_layout:
  assumes cls: "stringInstance (program c) = Some cls"
    and gc: "hasGC (program c) \<longrightarrow>
               gcHookOffset (program c) + 4 \<le> gcHeaderSize (program c)
               \<and> gcHeaderSize (program c) < 2 ^ 32"
    and len: "offsetof_length cls + 4 \<le> stringHeaderSize cls"
    and ret: "ensureStaticString s c = Inr (p, c1)"
  shows "ensureStaticString s c1 = Inr (p, c1)
       \<and> (stringSegments c s = None \<longrightarrow>
            (let seg = last (memorySegments c1);
                 b = buffer seg;
                 hdr = (if hasGC (program c) then gcHeaderSize (program c) else 0)
             in memorySegments c1 = memorySegments c @ [seg]
                \<and> stringSegments c1 s = Some seg
                \<and> length b = hdr + stringHeaderSize cls + 2 * length s
                \<and> (hasGC (program c) \<longrightarrow>
                     take 4 (drop (gcHookOffset (program c)) b) = bytesI32 (gcHookIndex cls))
                \<and> take 4 (drop (hdr + offsetof_length cls) b) = bytesI32 (word_of_nat (length s))
                \<and> drop (hdr + stringHeaderSize cls) b = concat (map bytesI16 s)
                \<and> p = stringPointer c (offset seg + word_of_nat hdr)))"
proof (intro conjI impI)
  show "ensureStaticString s c1 = Inr (p, c1)"
    using cls ret by (rule ensureStaticString_again)
next
  assume fresh: "stringSegments c s = None"
  define sb where "sb = stringBuffer (program c) cls s"
  define seg where "seg = fst (addMemorySegment sb 8 c)"
  define hdr where "hdr = (if hasGC (program c) then gcHeaderSize (program c) else 0)"
  note f = ensureStaticString_fresh [OF cls fresh ret, folded sb_def, folded seg_def]
  have gc': "hasGC (program c) \<longrightarrow> gcHookOffset (program c) + 4 \<le> gcHeaderSize (program c)"
    using gc by simp
  note lay = stringBuffer_layout [OF gc' len, of s, folded sb_def hdr_def]
  have segs: "memorySegments c1 = memorySegments c @ [seg]"
    by (subst f(1)) (simp add: seg_def addMemorySegment_def Let_def)
  have buf: "buffer seg = sb"
    by (simp add: seg_def addMemorySegment_def Let_def)
  have look: "stringSegments c1 s = Some seg"
    by (subst f(1)) simp
  have ptr: "p = stringPointer c (offset seg + word_of_nat hdr)"
    using gc by (subst f(2)) (simp add: hdr_def i64_new_of_nat)
  have last: "last (memorySegments c1) = seg"
    by (simp add: segs)
  show "(let seg = last (memorySegments c1);
             b = buffer seg;
             hdr = (if hasGC (program c) then gcHeaderSize (program c) else 0)
         in memorySegments c1 = memorySegments c @ [seg]
            \<and> stringSegments c1 s = Some seg
            \<and> length b = hdr + stringHeaderSize cls + 2 * length s
            \<and> (hasGC (program c) \<longrightarrow>
                 take 4 (drop (gcHookOffset (program c)) b) = bytesI32 (gcHookIndex cls))
            \<and> take 4 (drop (hdr + offsetof_length cls) b) = bytesI32 (word_of_nat (length s))
            \<and> drop (hdr + stringHeaderSize cls) b = concat (map bytesI16 s)
            \<and> p = stringPointer c (offset seg + word_of_nat hdr))"
    unfolding Let_def last buf hdr_def [symmetric]
    using segs look lay ptr by blast
qed

lemma stringBuffer_hi:
  "stringBuffer program_GC stringClassGC string_hi
     = [0, 0, 0, 0, 3, 0, 0, 0, 2, 0, 0, 0, 0x68, 0, 0x69, 0]"
  by code_simp

lemma compilerGC_fields:
  "program compilerGC = program_GC"
  "options compilerGC = options_wasm32"
  "stringSegments compilerGC = Map.empty"
  "memoryOffset compilerGC = 8"
  "memorySegments compilerGC = []"
  by (simp_all add: compilerGC_def newCompiler_def options_wasm32_def i64_new_def)

lemma program_GC_fields:
  "stringInstance program_GC = Some stringClassGC"
  "hasGC program_GC"
  "gcHeaderSize program_GC = 8"
  "gcHookOffset program_GC = 4"
  by (simp_all add: program_GC_def)

lemma ensureStaticString_hi:
  "ensureStaticString string_hi compilerGC = Inr (I32Const 16, compilerGC1)"
  unfolding compilerGC1_def
  by (simp add: ensureStaticString_def compilerGC_fields program_GC_fields Let_def
      addMemorySegment_def stringBuffer_hi i64_align_def i64_add_def i64_new_def i64_low_def
      i64_is_u32_def isWasm64_def options_wasm32_def)

lemma ensureStaticString_cls:
  "ensureStaticString s c = Inr x \<Longrightarrow> \<exists>cls. stringInstance (program c) = Some cls"
  by (cases "stringInstance (program c)") (simp_all add: ensureStaticString_def)

lemma ensureStaticString_known:
  assumes "stringInstance (program c) = Some cls" and "stringSegments c s = Some seg"
  shows "ensureStaticString s c
           = (let a = (if hasGC (program c)
                       then i64_add (offset seg) (i64_new (word_of_nat (gcHeaderSize (program c))) 0)
                       else offset seg)
              in if isWasm64 (options c) \<or> i64_is_u32 a
                 then Inr (stringPointer c a, c\<lparr>currentType := classType cls\<rparr>)
                 else Inl AssertionFailed)"
  using assms by (simp add: ensureStaticString_def Let_def stringPointer_def)

lemma ensureStaticString_known_state:
  assumes "stringInstance (program c) = Some cls" and "stringSegments c s = Some seg"
    and "ensureStaticString s c = Inr (p, c1)"
  shows "c1 = c\<lparr>currentType := classType cls\<rparr>"
  using assms(3) unfolding ensureStaticString_known [OF assms(1,2)] Let_def
  by (simp split: if_splits)

lemma ensureStaticString_keeps:
  assumes "ensureStaticString s' c = Inr (p, c')"
  shows "program c' = program c" and "options c' = options c"
    and "stringSegments c s = Some seg \<Longrightarrow> stringSegments c' s = Some seg"
proof -
  obtain cls where cls: "stringInstance (program c) = Some cls"
    using ensureStaticString_cls [OF assms] by blast
  show "program c' = program c" and "options c' = options c"
    and "stringSegments c s = Some seg \<Longrightarrow> stringSegments c' s = Some seg"
  proof (atomize (full), cases "stringSegments c s'")
    case None
    note f = ensureStaticString_fresh(1) [OF cls None assms]
    show "program c' = program c \<and> options c' = options c
        \<and> (stringSegments c s = Some seg \<longrightarrow> stringSegments c' s = Some seg)"
      using None by (subst (1 2 3) f) (auto simp add: addMemorySegment_def Let_def)
  next
    case (Some seg')
    note k = ensureStaticString_known_state [OF cls Some assms]
    show "program c' = program c \<and> options c' = options c
        \<and> (stringSegments c s = Some seg \<longrightarrow> stringSegments c' s = Some seg)"
      by (simp add: k)
  qed
qed

lemma addMemorySegment_keeps:
  "program (snd (addMemorySegment buf a c)) = program c"
  "options (snd (addMemorySegment buf a c)) = options c"
  "stringSegments (snd (addMemorySegment buf a c)) = stringSegments c"
  by (simp_all add: addMemorySegment_def Let_def)

lemma runStatic_keeps:
  assumes "runStatic ops c = Inr c'"
  shows "program c' = program c \<and> options c' = options c
       \<and> (stringSegments c s = Some seg \<longrightarrow> stringSegments c' s = Some seg)"
  using assms
proof (induction ops c rule: runStatic.induct)
  case (1 c)
  then show ?case by simp
next
  case (2 s' ops c)
  from "2.prems" obtain p c1 where e: "ensureStaticString s' c = Inr (p, c1)"
    and r: "runStatic ops c1 = Inr c'"
    by (auto split: sum.splits)
  from "2.IH" [OF e refl r] ensureStaticString_keeps [OF e] show ?case
    by auto
next
  case (3 buf a ops c)
  then show ?case
    by (simp add: addMemorySegment_keeps)
qed

lemma ensureStaticString_interned:
  assumes cls: "stringInstance (program c) = Some cls" and ret: "ensureStaticString s c = Inr (p, c1)"
  shows "\<exists>seg. stringSegments c1 s = Some seg"
proof (cases "stringSegments c s")
  case None
  show ?thesis
    by (subst ensureStaticString_fresh(1) [OF cls None ret]) simp
next
  case (Some seg)
  show ?thesis
    by (simp add: ensureStaticString_known_state [OF cls Some ret] Some)
qed

text \<open>
  Claim C5. When \<open>ensureStaticString(s)\<close> has returned a pointer, then after any
  further operations on static memory (strings of any content interned, segments added)
  a call with the same content returns the same pointer and changes nothing but
  \<open>currentType\<close>: it adds no segment. For a string not seen before, the first call
  appends exactly one segment and files it under the content. With the hook word inside
  the GC header and the length field inside the string header, the bytes of the segment
  are: with GC, the GC header holding the hook index of the string class at the hook
  offset; then the string header holding the length as an \<open>i32\<close> at the offset of the
  length field; then the code units, two bytes each. The pointer is the address of the
  segment plus the size of the GC header, if there is one.
\<close>

theorem ensureStaticString_canonical:
  assumes cls: "stringInstance (program c) = Some cls"
    and gc: "hasGC (program c) \<longrightarrow>
               gcHookOffset (program c) + 4 \<le> gcHeaderSize (program c)
               \<and> gcHeaderSize (program c) < 2 ^ 32"
    and len: "offsetof_length cls + 4 \<le> stringHeaderSize cls"
    and ret: "ensureStaticString s c = Inr (p, c1)"
    and run: "runStatic ops c1 = Inr c2"
  shows "ensureStaticString s c2 = Inr (p, c2\<lparr>currentType := classType cls\<rparr>)
       \<and> (stringSegments c s = None \<longrightarrow>
            (let seg = last (memorySegments c1);
                 b = buffer seg;
                 hdr = (if hasGC (program c) then gcHeaderSize (program c) else 0)
             in memorySegments c1 = memorySegments c @ [seg]
                \<and> stringSegments c1 s = Some seg
                \<and> length b = hdr + stringHeaderSize cls + 2 * length s
                \<and> (hasGC (program c) \<longrightarrow>
                     take 4 (drop (gcHookOffset (program c)) b) = bytesI32 (gcHookIndex cls))
                \<and> take 4 (drop (hdr + offsetof_length cls) b) = bytesI32 (word_of_nat (length s))
                \<and> drop (hdr + stringHeaderSize cls) b = concat (map bytesI16 s)
                \<and> p = stringPointer c (offset seg + word_of_nat hdr)))"
proof (intro conjI impI)
  have p1: "program c1 = program c" and o1: "options c1 = options c"
    using ensureStaticString_keeps(1,2) [OF ret] by simp_all
  have cls1: "stringInstance (program c1) = Some cls"
    using cls by (simp add: p1)
  obtain seg where seg1: "stringSegments c1 s = Some seg"
    using ensureStaticString_interned [OF cls ret] by blast
  have again: "ensureStaticString s c1 = Inr (p, c1)"
    using cls ret by (rule ensureStaticString_again)
  from runStatic_keeps [OF run, of s seg] seg1
  have p2: "program c2 = program c1" and o2: "options c2 = options c1"
    and seg2: "stringSegments c2 s = Some seg"
    by simp_all
  have cls2: "stringInstance (program c2) = Some cls"
    using cls1 by (simp add: p2)
  define a where "a = (if hasGC (program c1)
      then i64_add (offset seg) (i64_new (word_of_nat (gcHeaderSize (program c1))) 0)
      else offset seg)"
  have ok: "isWasm64 (options c1) \<or> i64_is_u32 a" and p: "p = stringPointer c1 a"
    using again unfolding ensureStaticString_known [OF cls1 seg1] Let_def a_def [symmetric]
    by (simp_all split: if_splits)
  have sp: "stringPointer c2 a = stringPointer c1 a"
    by (simp add: stringPointer_def o2)
  show "ensureStaticString s c2 = Inr (p, c2\<lparr>currentType := classType cls\<rparr>)"
    unfolding ensureStaticString_known [OF cls2 seg2] Let_def p2 o2 a_def [symmetric]
    using ok by (simp add: p sp)
next
  assume fresh: "stringSegments c s = None"
  have "ensureStaticString s c1 = Inr (p, c1)
       \<and> (stringSegments c s = None \<longrightarrow>
            (let seg = last (memorySegments c1);
                 b = buffer seg;
                 hdr = (if hasGC (program c) then gcHeaderSize (program c) else 0)
             in memorySegments c1 = memorySegments c @ [seg]
                \<and> stringSegments c1 s = Some seg
                \<and> length b = hdr + stringHeaderSize cls + 2 * length s
                \<and> (hasGC (program c) \<longrightarrow>
                     take 4 (drop (gcHookOffset (program c)) b) = bytesI32 (gcHookIndex cls))
                \<and> take 4 (drop (hdr + offsetof_length cls) b) = bytesI32 (word_of_nat (length s))
                \<and> drop (hdr + stringHeaderSize cls) b = concat (map bytesI16 s)
                \<and> p = stringPointer c (offset seg + word_of_nat hdr)))"
    using cls gc len ret by (rule ensureStaticString_layout)
  then show "(let seg = last (memorySegments c1);
                 b = buffer seg;
                 hdr = (if hasGC (program c) then gcHeaderSize (program c) else 0)
             in memorySegments c1 = memorySegments c @ [seg]
                \<and> stringSegments c1 s = Some seg
                \<and> length b = hdr + stringHeaderSize cls + 2 * length s
                \<and> (hasGC (program c) \<longrightarrow>
                     take 4 (drop (gcHookOffset (program c)) b) = bytesI32 (gcHookIndex cls))
                \<and> take 4 (drop (hdr + offsetof_length cls) b) = bytesI32 (word_of_nat (length s))
                \<and> drop (hdr + stringHeaderSize cls) b = concat (map bytesI16 s)
                \<and> p = stringPointer c (offset seg + word_of_nat hdr))"
    using fresh by blast
qed

lemma stringBuffer_yo:
  "stringBuffer program_GC stringClassGC string_yo
     = [0, 0, 0, 0, 3, 0, 0, 0, 2, 0, 0, 0, 0x79, 0, 0x6f, 0]"
  by code_simp

lemma compilerGC1_fields:
  "program compilerGC1 = program_GC"
  "options compilerGC1 = options_wasm32"
  "memoryOffset compilerGC1 = 24"
  "stringSegments compilerGC1 string_yo = None"
  "map offset (memorySegments compilerGC1) = [8]"
proof -
  have cls: "stringInstance (program compilerGC) = Some stringClassGC"
    by (simp add: compilerGC_fields program_GC_fields)
  have fresh: "stringSegments compilerGC string_hi = None"
    by (simp add: compilerGC_fields)
  note f = ensureStaticString_fresh(1) [OF cls fresh ensureStaticString_hi]
  show "program compilerGC1 = program_GC"
    by (subst f) (simp add: addMemorySegment_def Let_def compilerGC_fields)
  show "options compilerGC1 = options_wasm32"
    by (subst f) (simp add: addMemorySegment_def Let_def compilerGC_fields)
  show "memoryOffset compilerGC1 = 24"
    by (subst f)
       (simp add: addMemorySegment_def Let_def compilerGC_fields stringBuffer_hi
          i64_align_def i64_add_def i64_new_def)
  show "stringSegments compilerGC1 string_yo = None"
    by (subst f) (simp add: compilerGC_fields string_yo_def string_hi_def)
  show "map offset (memorySegments compilerGC1) = [8]"
    by (subst f)
       (simp add: addMemorySegment_def Let_def compilerGC_fields i64_align_def)
qed

lemma runStatic_opsGC: "runStatic opsGC compilerGC1 = Inr compilerGC2"
  unfolding compilerGC2_def opsGC_def
  by (simp add: ensureStaticString_def compilerGC1_fields program_GC_fields Let_def
      addMemorySegment_def stringBuffer_yo i64_align_def i64_add_def i64_new_def
      i64_is_u32_def isWasm64_def options_wasm32_def)

lemma compilerGC2_segments: "map offset (memorySegments compilerGC2) = [8, 24, 40]"
  unfolding compilerGC2_def opsGC_def
  by (simp add: ensureStaticString_def compilerGC1_fields program_GC_fields Let_def
      addMemorySegment_def stringBuffer_yo i64_align_def i64_add_def i64_new_def
      i64_is_u32_def isWasm64_def options_wasm32_def)

text \<open>
  The string "hi" with an 8-byte GC header, hook index 3 at offset 4: one segment of 16
  bytes at address 8 and the pointer 16; then "yo" is interned and a segment of one byte
  added; "hi" again gives the pointer 16 and no further segment.
\<close>

theorem ensureStaticString_canonical_witness:
  "ensureStaticString string_hi compilerGC = Inr (I32Const 16, compilerGC1)
   \<and> runStatic [EnsureString string_yo, AddSegment [1] 8] compilerGC1 = Inr compilerGC2
   \<and> ensureStaticString string_hi compilerGC2
       = Inr (I32Const 16, compilerGC2\<lparr>currentType := classType stringClassGC\<rparr>)
   \<and> map offset (memorySegments compilerGC1) = [8]
   \<and> map offset (memorySegments compilerGC2) = [8, 24, 40]
   \<and> buffer (last (memorySegments compilerGC1))
       = [0, 0, 0, 0, 3, 0, 0, 0, 2, 0, 0, 0, 0x68, 0, 0x69, 0]"
proof -
  have cls: "stringInstance (program compilerGC) = Some stringClassGC"
    by (simp add: compilerGC_fields program_GC_fields)
  have gc: "hasGC (program compilerGC) \<longrightarrow>
      gcHookOffset (program compilerGC) + 4 \<le> gcHeaderSize (program compilerGC)
      \<and> gcHeaderSize (program compilerGC) < 2 ^ 32"
    by (simp add: compilerGC_fields program_GC_fields)
  have len: "offsetof_length stringClassGC + 4 \<le> stringHeaderSize stringClassGC"
    by (simp add: stringClassGC_def stringHeaderSize_def)
  have fresh: "stringSegments compilerGC string_hi = None"
    by (simp add: compilerGC_fields)
  note t = ensureStaticString_canonical [OF cls gc len ensureStaticString_hi runStatic_opsGC]
  have buf: "buffer (last (memorySegments compilerGC1))
      = stringBuffer program_GC stringClassGC string_hi"
    by (subst (1) ensureStaticString_fresh(1) [OF cls fresh ensureStaticString_hi])
       (simp add: addMemorySegment_def Let_def compilerGC_fields)
  show ?thesis
    using t ensureStaticString_hi runStatic_opsGC compilerGC1_fields(5) compilerGC2_segments buf
    by (simp add: opsGC_def stringBuffer_hi)
qed

section \<open>The pages of the initial memory\<close>











section \<open>Enum members without an initializer\<close>

lemma compileEnumMember_others:
  "(\<forall>x \<in> set ms. x = OTHER) \<Longrightarrow> foldl (compileEnumMember cx precompute element) st ms = st"
  by (induction ms arbitrary: st) (simp_all add: compileEnumMember_def)

lemma compileEnumMember_first:
  assumes "value m = None"
  shows "compileEnumMember cx precompute element (c, None, mut) (ENUMVALUE m)
           = (snd (addGlobal (valueName m) NativeType.I32 (CommonFlags.CONST \<notin> enumFlags element)
                     (I32Const 0) c),
              Some m, False)"
  using assms by (simp add: compileEnumMember_def enumInitializer_def)

lemma compileEnumMember_next:
  fixes p m :: EnumValue and precompute :: "expr \<Rightarrow> expr"
  assumes "value m = None"
  defines "e \<equiv> precompute (Binary AddI32 (GetGlobal (valueName p) NativeType.I32) (I32Const 1))"
  shows "isConst e \<longrightarrow>
           globals (module (fst (compileEnumMember cx precompute element (c, Some p, mut) (ENUMVALUE m))))
             = globals (module c)
               @ [(valueName m, NativeType.I32, CommonFlags.CONST \<notin> enumFlags element, e)]
           \<and> startFunctionBody (fst (compileEnumMember cx precompute element (c, Some p, mut) (ENUMVALUE m)))
               = startFunctionBody c"
    and "\<not> isConst e \<longrightarrow>
           globals (module (fst (compileEnumMember cx precompute element (c, Some p, mut) (ENUMVALUE m))))
             = globals (module c) @ [(valueName m, NativeType.I32, True, I32Const 0)]
           \<and> startFunctionBody (fst (compileEnumMember cx precompute element (c, Some p, mut) (ENUMVALUE m)))
               = startFunctionBody c @ [SetGlobal (valueName m) e]"
    and "mut \<longrightarrow> Enum_member_must_have_initializer
           \<in> set (diagnostics (fst (compileEnumMember cx precompute element (c, Some p, mut) (ENUMVALUE m))))"
  using assms(1) unfolding e_def
  by (simp_all add: compileEnumMember_def enumInitializer_def addGlobal_def error_def Let_def)

lemma compileEnumMember_previous:
  "fst (snd (compileEnumMember cx precompute element (c, prev, mut) (ENUMVALUE v))) = Some v"
  "snd (snd (compileEnumMember cx precompute element (c, prev, mut) (ENUMVALUE v)))
     \<longleftrightarrow> startFunctionBody (fst (compileEnumMember cx precompute element (c, prev, mut) (ENUMVALUE v)))
          \<noteq> startFunctionBody c"
  by (auto simp add: compileEnumMember_def enumInitializer_def addGlobal_def error_def Let_def
      split: option.splits prod.splits if_splits)

lemma compileEnumMember_flags:
  "(CommonFlags.CONST \<in> enumFlags e1 \<longleftrightarrow> CommonFlags.CONST \<in> enumFlags e2) \<Longrightarrow>
   compileEnumMember cx precompute e1 st member = compileEnumMember cx precompute e2 st member"
  by (cases st; cases member)
     (auto simp add: compileEnumMember_def enumInitializer_def Let_def
        split: option.splits prod.splits)

lemma enumCompiled_fold:
  assumes "COMPILED \<notin> enumFlags element"
  shows "enumCompiled cx precompute element ms c
           = fst (foldl (compileEnumMember cx precompute element) (c, None, False) ms)"
proof -
  have "compileEnumMember cx precompute
          (element\<lparr>members := ms, enumFlags := insert COMPILED (enumFlags element)\<rparr>)
        = compileEnumMember cx precompute element"
    by (intro ext compileEnumMember_flags) simp
  then show ?thesis
    using assms by (simp add: enumCompiled_def compileEnum_def Let_def)
qed

lemma compileEnumMember_globals:
  "\<exists>gs. globals (module (fst (compileEnumMember cx precompute element st member)))
          = globals (module (fst st)) @ gs"
  by (cases st; cases member)
     (auto simp add: compileEnumMember_def enumInitializer_def addGlobal_def error_def Let_def
        split: option.splits prod.splits)

lemma compileEnumMembers_globals:
  "\<exists>gs. globals (module (fst (foldl (compileEnumMember cx precompute element) st ms)))
          = globals (module (fst st)) @ gs"
proof (induction ms arbitrary: st)
  case Nil
  show ?case by simp
next
  case (Cons member ms)
  obtain gs1 where 1: "globals (module (fst (compileEnumMember cx precompute element st member)))
      = globals (module (fst st)) @ gs1"
    using compileEnumMember_globals by blast
  obtain gs2 where 2: "globals (module (fst (foldl (compileEnumMember cx precompute element)
        (compileEnumMember cx precompute element st member) ms)))
      = globals (module (fst (compileEnumMember cx precompute element st member))) @ gs2"
    using Cons.IH by blast
  show ?case
    by (simp add: 1 2)
qed

text \<open>
  Claim C6. \<open>compileEnum\<close> of an enum that is not compiled yet, seen through the
  compiler it leaves for the members up to a point (later members only append globals).
  A member without an initializer that no enum value precedes gets the global with the
  constant 0. A member without an initializer whose previous enum value is \<open>p\<close> gets
  the precomputed \<open>get_global(p) + 1\<close>: as the initializer of its global when that is a
  constant, in the start function otherwise. When \<open>p\<close> was initialized in the start
  function, the member gets the diagnostic "Enum member must have initializer", in a
  const enum as in any other.
\<close>

theorem compileEnum_missing_initializer:
  assumes nc: "COMPILED \<notin> enumFlags element" and m: "value m = None"
  shows "((\<forall>x \<in> set pre. x = OTHER) \<longrightarrow>
            enumCompiled cx precompute element (pre @ [ENUMVALUE m]) c
              = snd (addGlobal (valueName m) NativeType.I32
                       (CommonFlags.CONST \<notin> enumFlags element) (I32Const 0) c))
       \<and> ((\<forall>x \<in> set mid. x = OTHER) \<longrightarrow>
            (let e = precompute (Binary AddI32 (GetGlobal (valueName p) NativeType.I32) (I32Const 1));
                 c0 = enumCompiled cx precompute element pre c;
                 cp = enumCompiled cx precompute element (pre @ [ENUMVALUE p]) c;
                 c1 = enumCompiled cx precompute element (pre @ ENUMVALUE p # mid) c;
                 c2 = enumCompiled cx precompute element (pre @ ENUMVALUE p # mid @ [ENUMVALUE m]) c
             in (isConst e \<longrightarrow>
                   globals (module c2)
                     = globals (module c1)
                       @ [(valueName m, NativeType.I32, CommonFlags.CONST \<notin> enumFlags element, e)]
                   \<and> startFunctionBody c2 = startFunctionBody c1)
                \<and> (\<not> isConst e \<longrightarrow>
                   globals (module c2)
                     = globals (module c1) @ [(valueName m, NativeType.I32, True, I32Const 0)]
                   \<and> startFunctionBody c2 = startFunctionBody c1 @ [SetGlobal (valueName m) e])
                \<and> (startFunctionBody cp \<noteq> startFunctionBody c0 \<longrightarrow>
                     Enum_member_must_have_initializer \<in> set (diagnostics c2))))
       \<and> (\<exists>gs. globals (module (enumCompiled cx precompute element (ms @ post) c))
                 = globals (module (enumCompiled cx precompute element ms c)) @ gs)"
proof (intro conjI impI)
  let ?step = "compileEnumMember cx precompute element"
  let ?F = "\<lambda>ms. foldl ?step (c, None, False) ms"
  note fold = enumCompiled_fold [OF nc]
  {
    assume "\<forall>x \<in> set pre. x = OTHER"
    then have "?F pre = (c, None, False)"
      by (rule compileEnumMember_others)
    then show "enumCompiled cx precompute element (pre @ [ENUMVALUE m]) c
              = snd (addGlobal (valueName m) NativeType.I32
                       (CommonFlags.CONST \<notin> enumFlags element) (I32Const 0) c)"
      by (simp add: fold compileEnumMember_first [OF m])
  next
    assume mid: "\<forall>x \<in> set mid. x = OTHER"
    obtain c0 prev0 mut0 where F0: "?F pre = (c0, prev0, mut0)"
      by (cases "?F pre")
    obtain c1 prev1 mut1 where F1: "?step (c0, prev0, mut0) (ENUMVALUE p) = (c1, prev1, mut1)"
      by (cases "?step (c0, prev0, mut0) (ENUMVALUE p)")
    have prev1: "prev1 = Some p"
      using compileEnumMember_previous(1) [of cx precompute element c0 prev0 mut0 p] F1 by simp
    have mut1: "mut1 \<longleftrightarrow> startFunctionBody c1 \<noteq> startFunctionBody c0"
      using compileEnumMember_previous(2) [of cx precompute element c0 prev0 mut0 p] F1 by simp
    have Fp: "?F (pre @ [ENUMVALUE p]) = (c1, Some p, mut1)"
      by (simp add: F0 F1 prev1)
    have Fmid: "?F (pre @ ENUMVALUE p # mid) = (c1, Some p, mut1)"
      using compileEnumMember_others [OF mid, of cx precompute element "(c1, Some p, mut1)"]
      by (simp add: F0 F1 prev1)
    have Fm: "?F (pre @ ENUMVALUE p # mid @ [ENUMVALUE m])
        = ?step (c1, Some p, mut1) (ENUMVALUE m)"
      using compileEnumMember_others [OF mid, of cx precompute element "(c1, Some p, mut1)"]
      by (simp add: F0 F1 prev1)
    note nx = compileEnumMember_next
      [OF m, where precompute = precompute and p = p and cx = cx and element = element
         and c = c1 and mut = mut1]
    show "let e = precompute (Binary AddI32 (GetGlobal (valueName p) NativeType.I32) (I32Const 1));
                 c0 = enumCompiled cx precompute element pre c;
                 cp = enumCompiled cx precompute element (pre @ [ENUMVALUE p]) c;
                 c1 = enumCompiled cx precompute element (pre @ ENUMVALUE p # mid) c;
                 c2 = enumCompiled cx precompute element (pre @ ENUMVALUE p # mid @ [ENUMVALUE m]) c
             in (isConst e \<longrightarrow>
                   globals (module c2)
                     = globals (module c1)
                       @ [(valueName m, NativeType.I32, CommonFlags.CONST \<notin> enumFlags element, e)]
                   \<and> startFunctionBody c2 = startFunctionBody c1)
                \<and> (\<not> isConst e \<longrightarrow>
                   globals (module c2)
                     = globals (module c1) @ [(valueName m, NativeType.I32, True, I32Const 0)]
                   \<and> startFunctionBody c2 = startFunctionBody c1 @ [SetGlobal (valueName m) e])
                \<and> (startFunctionBody cp \<noteq> startFunctionBody c0 \<longrightarrow>
                     Enum_member_must_have_initializer \<in> set (diagnostics c2))"
      unfolding Let_def fold Fp Fmid Fm F0 fst_conv
      using nx mut1 by blast
  next
    show "\<exists>gs. globals (module (enumCompiled cx precompute element (ms @ post) c))
                 = globals (module (enumCompiled cx precompute element ms c)) @ gs"
      unfolding fold foldl_append by (rule compileEnumMembers_globals)
  }
qed

text \<open>
  \<open>enum E { C, B }\<close> without a constant folder: \<open>C\<close> is 0 and \<open>B\<close> is \<open>E.C + 1\<close>
  in the start function. \<open>enum E { A = f(), B }\<close>, where the call is no constant:
  \<open>A\<close> is initialized in the start function and \<open>B\<close> gets the diagnostic.
\<close>

theorem compileEnum_missing_initializer_witness:
  "COMPILED \<notin> enumFlags enum_E \<and> value enumValue_C = None \<and> value enumValue_B = None
   \<and> enumCompiled cx_opaque precompute_id enum_E [ENUMVALUE enumValue_C] compiler0
       = compiler0\<lparr>module := (module compiler0)
           \<lparr>globals := [(''E.C'', NativeType.I32, True, I32Const 0)]\<rparr>\<rparr>
   \<and> compileEnum cx_opaque precompute_id
         (enum_E\<lparr>members := [ENUMVALUE enumValue_C, ENUMVALUE enumValue_B]\<rparr>) compiler0
       = (True,
          enum_E\<lparr>members := [ENUMVALUE enumValue_C, ENUMVALUE enumValue_B],
                  enumFlags := {COMPILED}\<rparr>,
          compiler0
            \<lparr>module := (module compiler0)
               \<lparr>globals := [(''E.C'', NativeType.I32, True, I32Const 0),
                              (''E.B'', NativeType.I32, True, I32Const 0)]\<rparr>,
             startFunctionBody :=
               [SetGlobal ''E.B''
                  (Binary AddI32 (GetGlobal ''E.C'' NativeType.I32) (I32Const 1))]\<rparr>)
   \<and> Enum_member_must_have_initializer
       \<in> set (diagnostics (enumCompiled cx_opaque precompute_id enum_E
             [ENUMVALUE enumValue_A, ENUMVALUE enumValue_B] compiler0))"
proof -
  have nc: "COMPILED \<notin> enumFlags enum_E"
    by (simp add: enum_E_def)
  have vc: "value enumValue_C = None"
    by (simp add: enumValue_C_def)
  have vb: "value enumValue_B = None"
    by (simp add: enumValue_B_def)
  have first: "enumCompiled cx_opaque precompute_id enum_E [ENUMVALUE enumValue_C] compiler0
       = compiler0\<lparr>module := (module compiler0)
           \<lparr>globals := [(''E.C'', NativeType.I32, True, I32Const 0)]\<rparr>\<rparr>"
    using compileEnum_missing_initializer
      [OF nc vc, where pre = "[]" and cx = cx_opaque and precompute = precompute_id
         and c = compiler0]
    by (simp add: addGlobal_def enum_E_def enumValue_C_def compiler0_def newCompiler_def)
  have started: "startFunctionBody (enumCompiled cx_opaque precompute_id enum_E
        ([] @ [ENUMVALUE enumValue_A]) compiler0)
      \<noteq> startFunctionBody (enumCompiled cx_opaque precompute_id enum_E [] compiler0)"
    by (simp add: enumCompiled_def compileEnum_def compileEnumMember_def enumInitializer_def
        enumValue_A_def cx_opaque_def enum_E_def addGlobal_def Let_def)
  have diag: "Enum_member_must_have_initializer
       \<in> set (diagnostics (enumCompiled cx_opaque precompute_id enum_E
             [ENUMVALUE enumValue_A, ENUMVALUE enumValue_B] compiler0))"
    using compileEnum_missing_initializer
      [OF nc vb, where mid = "[]" and pre = "[]" and p = enumValue_A and cx = cx_opaque
         and precompute = precompute_id and c = compiler0]
      started
    by (simp add: Let_def)
  have run: "compileEnum cx_opaque precompute_id
         (enum_E\<lparr>members := [ENUMVALUE enumValue_C, ENUMVALUE enumValue_B]\<rparr>) compiler0
       = (True,
          enum_E\<lparr>members := [ENUMVALUE enumValue_C, ENUMVALUE enumValue_B],
                  enumFlags := {COMPILED}\<rparr>,
          compiler0
            \<lparr>module := (module compiler0)
               \<lparr>globals := [(''E.C'', NativeType.I32, True, I32Const 0),
                              (''E.B'', NativeType.I32, True, I32Const 0)]\<rparr>,
             startFunctionBody :=
               [SetGlobal ''E.B''
                  (Binary AddI32 (GetGlobal ''E.C'' NativeType.I32) (I32Const 1))]\<rparr>)"
    by (simp add: compileEnum_def compileEnumMember_def enumInitializer_def enumValue_C_def
        enumValue_B_def precompute_id_def enum_E_def addGlobal_def Let_def
        compiler0_def newCompiler_def)
  show ?thesis
    using nc vc vb first run diag by simp
qed


section \<open>The function table\<close>

lemma toString10_digit: "n < 10 \<Longrightarrow> toString10 n = [digit10 n]"
  by (subst toString10.simps) simp

lemma compilerF_fields:
  "heap compilerF = [0 \<mapsto> function_f]"
  "nextRef compilerF = 1"
  "functionTable compilerF = []"
  "options compilerF = options_wasm32"
  "diagnostics compilerF = []"
  by (simp_all add: compilerF_def newCompiler_def)

lemma ensureFunctionTableEntry_first_call:
  "ensureFunctionTableEntry cx_opaque 0 compilerF = Inr (0, compilerF1)"
  unfolding compilerF1_def
  by (simp add: ensureFunctionTableEntry_def ensureTrampoline_def newFunction_def compilerF_fields function_f_def
      parameterTypes_def Let_def addFunction_def)

text \<open>
  A function without optional parameters, or a trampoline, keeps its index: once a call
  has returned, a further call returns the same index and the same compiler.
\<close>

lemma ensureFunctionTableEntry_plain_idempotent:
  assumes "heap c r = Some f"
    and "TRAMPOLINE \<in> commonFlags f \<or> \<not> requiredParameters f < length (parameterList f)"
    and "ensureFunctionTableEntry cx r c = Inr (i, c1)"
  shows "ensureFunctionTableEntry cx r c1 = Inr (i, c1)"
  using assms
  by (auto simp add: ensureFunctionTableEntry_def parameterTypes_def Let_def split: if_splits)

text \<open>
  A compiled function with optional parameters that has no index and no trampoline yet:
  the first call appends the name of the trampoline, so the slot names the trampoline.
  The index is recorded on the trampoline, not on the function, so the second call
  returns the next index and appends the trampoline again.
\<close>

lemma ensureFunctionTableEntry_optional_twice:
  assumes f: "heap c r = Some f"
    and flags: "COMPILED \<in> commonFlags f" "TRAMPOLINE \<notin> commonFlags f"
    and opt: "requiredParameters f < length (parameterList f)"
    and idx: "functionTableIndex f < 0"
    and tr: "trampoline f = None"
    and fresh: "r \<noteq> nextRef c"
  shows "\<exists>c1 c2. ensureFunctionTableEntry cx r c = Inr (int (length (functionTable c)), c1)
           \<and> ensureFunctionTableEntry cx r c1 = Inr (int (length (functionTable c)) + 1, c2)
           \<and> functionTable c2
               = functionTable c @ [internalName f @ ''|trampoline'', internalName f @ ''|trampoline'']"
  using assms
  by (simp add: ensureFunctionTableEntry_def ensureTrampoline_def newFunction_def
      parameterTypes_def Let_def addFunction_def case_prod_beta)

text \<open>
  Claim C1 says that every call after the first returns the same index and appends no
  further entry. For \<open>f(a: i32, b: i32 = 2)\<close>, compiled and not yet in the table, the
  first call returns 0 and the second returns 1, with the trampoline in the table twice.
\<close>

theorem ensureFunctionTableEntry_second_call:
  "map_sum id fst (ensureFunctionTableEntry cx_opaque 0 compilerF) = Inr 0
   \<and> map_sum id fst (ensureFunctionTableEntry cx_opaque 0 compilerF1) = Inr 1
   \<and> map_sum id (\<lambda>(i, c). functionTable c) (ensureFunctionTableEntry cx_opaque 0 compilerF1)
       = Inr [''f|trampoline'', ''f|trampoline'']"
  unfolding compilerF1_def
  by (simp add: ensureFunctionTableEntry_def ensureTrampoline_def newFunction_def compilerF_fields function_f_def
      parameterTypes_def Let_def addFunction_def)

section \<open>Direct calls\<close>

lemma compileFunction_result:
  assumes "heap c r = Some f0" and "compileFunction cb r c = Inr (ok, c1)"
  shows "ok"
    and "\<exists>f. heap c1 r = Some f
           \<and> parameterList f = parameterList f0
           \<and> requiredParameters f = requiredParameters f0
           \<and> returnType f = returnType f0
           \<and> internalName f = internalName f0
           \<and> trampoline f = trampoline f0
           \<and> flowFlags f = flowFlags f0
           \<and> (INSTANCE \<in> commonFlags f \<longleftrightarrow> INSTANCE \<in> commonFlags f0)
           \<and> COMPILED \<in> commonFlags f"
    and "argcVar c1 = argcVar c"
    and "globals (module c1) = globals (module c)"
    and "nextRef c1 = nextRef c"
    and "options c1 = options c"
    and "\<forall>t. t \<noteq> r \<longrightarrow> heap c1 t = heap c t"
  using assms
  by (auto simp add: compileFunction_def Let_def addFunction_def addFunctionImport_def error_def
      split: if_splits)

lemma compileFunction_compiled:
  "heap c r = Some f \<Longrightarrow> COMPILED \<in> commonFlags f \<Longrightarrow> compileFunction cb r c = Inr (True, c)"
  by (simp add: compileFunction_def)

text \<open>
  Claim C10. For a callee that is a module import, a call that omits operands where not
  every omitted parameter has a constant initializer fills the omitted operands with the
  native zeroes of their types and is a \<open>call_import\<close> of the function itself. The
  compiler after the call is the one after \<open>compileFunction\<close> with \<open>currentType\<close>
  set: the function has the trampoline it had, no function object is added, and the
  \<open>~argc\<close> global is neither created nor set.
\<close>

theorem makeCallDirect_import_zero_padded:
  assumes f0: "heap c r = Some f0"
    and comp: "compileFunction cb r c = Inr (ok, c1)"
    and f: "heap c1 r = Some f"
    and imp: "MODULE_IMPORT \<in> commonFlags f"
    and min: "requiredParameters f0 + thisOperands f0 \<le> length (operandsOf operands)"
    and max: "length (operandsOf operands) < length (parameterList f0) + thisOperands f0"
    and nonconst: "constantInitializers (omittedParameters f0 (length (operandsOf operands))) = None"
  shows "makeCallDirect cx cb r operands c
           = Inr (CallImport (internalName f0)
                    (operandsOf operands
                     @ map (\<lambda>(ty, init). toNativeZero ty)
                         (omittedParameters f0 (length (operandsOf operands))))
                    (toNativeType (returnType f0)),
                  c1\<lparr>currentType := returnType f0\<rparr>)
       \<and> map_option trampoline (heap c1 r) = Some (trampoline f0)
       \<and> (\<forall>t. t \<noteq> r \<longrightarrow> heap c1 t = heap c t)
       \<and> nextRef c1 = nextRef c
       \<and> argcVar c1 = argcVar c
       \<and> globals (module c1) = globals (module c)"
proof -
  note cf = compileFunction_result [OF f0 comp]
  from cf(2) f have same: "parameterList f = parameterList f0"
    "requiredParameters f = requiredParameters f0" "returnType f = returnType f0"
    "internalName f = internalName f0" "trampoline f = trampoline f0"
    "INSTANCE \<in> commonFlags f \<longleftrightarrow> INSTANCE \<in> commonFlags f0"
    by auto
  have n: "nat (if INSTANCE \<in> commonFlags f0 then int (length (operandsOf operands)) - 1
                else int (length (operandsOf operands)))
           = length (operandsOf operands) - thisOperands f0"
    by (auto simp add: thisOperands_def nat_diff_distrib')
  have call: "makeCallDirect cx cb r operands c
           = Inr (CallImport (internalName f0)
                    (operandsOf operands
                     @ map (\<lambda>(ty, init). toNativeZero ty)
                         (omittedParameters f0 (length (operandsOf operands))))
                    (toNativeType (returnType f0)),
                  c1\<lparr>currentType := returnType f0\<rparr>)"
    using min max nonconst cf(1) imp
    unfolding makeCallDirect_def f0 comp f option.case sum.case prod.case Let_def
      operandsOf_def [symmetric] parameterTypes_def length_map n same omittedParameters_def
    by (simp add: thisOperands_def callThrough_def same split: if_splits)
  show ?thesis
    using call cf f same by simp
qed

lemma compilerImp_fields:
  "heap compilerImp = [0 \<mapsto> function_imp]"
  "nextRef compilerImp = 1"
  "argcVar compilerImp = 0"
  by (simp_all add: compilerImp_def newCompiler_def)

text \<open>\<open>declare function g(a: i32, b?: i32): i32\<close>, called as \<open>g(5)\<close>.\<close>

theorem makeCallDirect_import_zero_padded_witness:
  "heap compilerImp 0 = Some function_imp
   \<and> compileFunction cb_opaque 0 compilerImp = Inr (True, compilerImp)
   \<and> MODULE_IMPORT \<in> commonFlags function_imp
   \<and> constantInitializers (omittedParameters function_imp (length (operandsOf (Some [I32Const 5]))))
       = None
   \<and> makeCallDirect cx_opaque cb_opaque 0 (Some [I32Const 5]) compilerImp
       = Inr (CallImport ''g'' [I32Const 5, I32Const 0] NativeType.I32,
              compilerImp\<lparr>currentType := Type_i32\<rparr>)
   \<and> map_option trampoline (heap compilerImp 0) = Some None
   \<and> argcVar compilerImp = 0"
proof -
  have f0: "heap compilerImp 0 = Some function_imp"
    by (simp add: compilerImp_fields)
  have comp: "compileFunction cb_opaque 0 compilerImp = Inr (True, compilerImp)"
    by (simp add: compileFunction_def compilerImp_fields function_imp_def)
  have imp: "MODULE_IMPORT \<in> commonFlags function_imp"
    by (simp add: function_imp_def)
  have min: "requiredParameters function_imp + thisOperands function_imp
      \<le> length (operandsOf (Some [I32Const 5]))"
    by (simp add: function_imp_def thisOperands_def operandsOf_def)
  have max: "length (operandsOf (Some [I32Const 5]))
      < length (parameterList function_imp) + thisOperands function_imp"
    by (simp add: function_imp_def thisOperands_def operandsOf_def)
  have nonconst: "constantInitializers
      (omittedParameters function_imp (length (operandsOf (Some [I32Const 5])))) = None"
    by (simp add: function_imp_def thisOperands_def operandsOf_def omittedParameters_def)
  have zeros: "map (\<lambda>(ty, init). toNativeZero ty)
      (omittedParameters function_imp (length (operandsOf (Some [I32Const 5])))) = [I32Const 0]"
    by (simp add: function_imp_def thisOperands_def operandsOf_def omittedParameters_def
        toNativeZero_def toNativeType_def Type_i32_def)
  show ?thesis
    using makeCallDirect_import_zero_padded [OF f0 comp f0 imp min max nonconst, of cx_opaque]
      f0 comp imp nonconst zeros
    by (simp add: operandsOf_def function_imp_def toNativeType_def Type_i32_def compilerImp_fields)
qed

lemma ensureTrampoline_existing:
  "heap c r = Some f \<Longrightarrow> trampoline f = Some t \<Longrightarrow> ensureTrampoline cx r c = Inr (t, c)"
  by (simp add: ensureTrampoline_def)

lemma ensureTrampoline_new:
  assumes "heap c r = Some f" and "trampoline f = None"
    and "requiredParameters f < length (parameterList f)"
  shows "\<exists>c2 tr. ensureTrampoline cx r c = Inr (nextRef c, c2)
           \<and> heap c2 (nextRef c) = Some tr
           \<and> internalName tr = internalName f @ ''|trampoline''
           \<and> COMPILED \<in> commonFlags tr \<and> TRAMPOLINE \<in> commonFlags tr
           \<and> argcVar c2 = argcVar c"
  using assms
  by (simp add: ensureTrampoline_def newFunction_def Let_def addFunction_def case_prod_beta)

lemma ensureArgcVar_result:
  "fst (ensureArgcVar c) = ''~argc''" "argcVar (snd (ensureArgcVar c)) \<noteq> 0"
  by (simp_all add: ensureArgcVar_def addGlobal_def Let_def)

lemma makeCallDirect_trampoline:
  assumes f0: "heap c r = Some f0"
    and comp: "compileFunction cb r c = Inr (ok, c1)"
    and f: "heap c1 r = Some f"
    and min: "requiredParameters f0 + thisOperands f0 \<le> length (operandsOf operands)"
    and max: "length (operandsOf operands) < length (parameterList f0) + thisOperands f0"
    and nonconst: "constantInitializers (omittedParameters f0 (length (operandsOf operands))) = None"
    and notimp: "MODULE_IMPORT \<notin> commonFlags f"
    and wf: "\<forall>t. trampoline f0 = Some t \<longrightarrow> (\<exists>tr. heap c1 t = Some tr \<and> COMPILED \<in> commonFlags tr)"
  shows "\<exists>c'. makeCallDirect cx cb r operands c
           = Inr (Block None
                    [SetGlobal ''~argc''
                       (I32Const (word_of_nat (length (operandsOf operands) - thisOperands f0))),
                     Call (trampolineName c1 f0)
                       (operandsOf operands
                        @ map (\<lambda>(ty, init). toNativeZero ty)
                            (omittedParameters f0 (length (operandsOf operands))))
                       (toNativeType (returnType f0))]
                    (toNativeType (returnType f0)),
                  c')
           \<and> argcVar c' \<noteq> 0"
proof -
  note cf = compileFunction_result [OF f0 comp]
  from cf(2) f have same: "parameterList f = parameterList f0"
    "requiredParameters f = requiredParameters f0" "returnType f = returnType f0"
    "internalName f = internalName f0" "trampoline f = trampoline f0"
    "INSTANCE \<in> commonFlags f \<longleftrightarrow> INSTANCE \<in> commonFlags f0"
    by auto
  have n: "nat (if INSTANCE \<in> commonFlags f0 then int (length (operandsOf operands)) - 1
                else int (length (operandsOf operands)))
           = length (operandsOf operands) - thisOperands f0"
    by (auto simp add: thisOperands_def nat_diff_distrib')
  have w: "(word_of_int (if INSTANCE \<in> commonFlags f0 then int (length (operandsOf operands)) - 1
                else int (length (operandsOf operands))) :: 32 word)
           = word_of_nat (length (operandsOf operands) - thisOperands f0)"
    using min by (auto simp add: thisOperands_def of_nat_diff)
  have opt: "requiredParameters f < length (parameterList f)"
    using min max by (simp add: same)
  obtain t c2 tr where et: "ensureTrampoline cx r c1 = Inr (t, c2)"
    and tr: "heap c2 t = Some tr" "COMPILED \<in> commonFlags tr"
    and name: "internalName tr = trampolineName c1 f0"
  proof (cases "trampoline f0")
    case None
    then have "trampoline f = None" by (simp add: same)
    from ensureTrampoline_new [OF f this opt, of cx] None that show ?thesis
      by (auto simp add: trampolineName_def same)
  next
    case (Some t)
    then obtain tr where "heap c1 t = Some tr" "COMPILED \<in> commonFlags tr"
      using wf by blast
    moreover have "trampoline f = Some t"
      using Some by (simp add: same)
    then have "ensureTrampoline cx r c1 = Inr (t, c1)"
      using f by (intro ensureTrampoline_existing)
    ultimately show ?thesis
      using that Some by (simp add: trampolineName_def)
  qed
  have ct: "compileFunction cb t c2 = Inr (True, c2)"
    using tr by (rule compileFunction_compiled)
  show ?thesis
    using min max nonconst cf(1) notimp ensureArgcVar_result
    unfolding makeCallDirect_def f0 comp f option.case sum.case prod.case Let_def
      operandsOf_def [symmetric] parameterTypes_def length_map n w same omittedParameters_def
      et ct tr name
    by (simp add: thisOperands_def same case_prod_beta split: if_splits)
qed

text \<open>
  Claim C2, as amended. When the assertion on the operand count holds and
  \<open>compileFunction\<close> returns: with all operands the call is a call of the function
  itself; with fewer operands and a constant initializer for every omitted parameter, the
  compiled initializers are the missing operands of a call of the function itself; in
  both, the call is a \<open>call_import\<close> when the function is a module import and a
  \<open>call\<close> otherwise. With fewer operands, an omitted parameter without a constant
  initializer and a function that is not a module import, the omitted operands are the
  native zeroes, the callee is the trampoline, and the result is a block of the native
  return type that sets \<open>~argc\<close> to the number of arguments supplied and calls the
  trampoline; the \<open>~argc\<close> global exists afterwards.
\<close>

theorem makeCallDirect_cases:
  assumes f0: "heap c r = Some f0"
    and comp: "compileFunction cb r c = Inr (ok, c1)"
    and f: "heap c1 r = Some f"
    and min: "requiredParameters f0 + thisOperands f0 \<le> length (operandsOf operands)"
  shows "(length (parameterList f0) + thisOperands f0 \<le> length (operandsOf operands) \<longrightarrow>
           resultExpr (makeCallDirect cx cb r operands c)
             = Some ((if MODULE_IMPORT \<in> commonFlags f then CallImport else Call)
                       (internalName f0) (operandsOf operands) (toNativeType (returnType f0))))
       \<and> (length (operandsOf operands) < length (parameterList f0) + thisOperands f0 \<longrightarrow>
           (\<forall>inits. constantInitializers (omittedParameters f0 (length (operandsOf operands)))
                      = Some inits \<longrightarrow>
              resultExpr (makeCallDirect cx cb r operands c)
                = Some ((if MODULE_IMPORT \<in> commonFlags f then CallImport else Call)
                          (internalName f0)
                          (operandsOf operands
                           @ map (\<lambda>(ty, init). cx init ty IMPLICIT WrapMode.NONE) inits)
                          (toNativeType (returnType f0))))
           \<and> (constantInitializers (omittedParameters f0 (length (operandsOf operands))) = None
                \<and> MODULE_IMPORT \<notin> commonFlags f
                \<and> (\<forall>t. trampoline f0 = Some t \<longrightarrow>
                       (\<exists>tr. heap c1 t = Some tr \<and> COMPILED \<in> commonFlags tr)) \<longrightarrow>
              (\<exists>c'. makeCallDirect cx cb r operands c
                 = Inr (Block None
                          [SetGlobal ''~argc''
                             (I32Const
                                (word_of_nat (length (operandsOf operands) - thisOperands f0))),
                           Call (trampolineName c1 f0)
                             (operandsOf operands
                              @ map (\<lambda>(ty, init). toNativeZero ty)
                                  (omittedParameters f0 (length (operandsOf operands))))
                             (toNativeType (returnType f0))]
                          (toNativeType (returnType f0)),
                        c')
                 \<and> argcVar c' \<noteq> 0)))"
proof (intro conjI impI allI)
  note cf = compileFunction_result [OF f0 comp]
  from cf(2) f have same: "parameterList f = parameterList f0"
    "requiredParameters f = requiredParameters f0" "returnType f = returnType f0"
    "internalName f = internalName f0" "trampoline f = trampoline f0"
    "INSTANCE \<in> commonFlags f \<longleftrightarrow> INSTANCE \<in> commonFlags f0"
    by auto
  have n: "nat (if INSTANCE \<in> commonFlags f0 then int (length (operandsOf operands)) - 1
                else int (length (operandsOf operands)))
           = length (operandsOf operands) - thisOperands f0"
    by (auto simp add: thisOperands_def nat_diff_distrib')
  {
    assume all: "length (parameterList f0) + thisOperands f0 \<le> length (operandsOf operands)"
    show "resultExpr (makeCallDirect cx cb r operands c)
             = Some ((if MODULE_IMPORT \<in> commonFlags f then CallImport else Call)
                       (internalName f0) (operandsOf operands) (toNativeType (returnType f0)))"
      using min all cf(1)
      unfolding makeCallDirect_def f0 comp f option.case sum.case prod.case Let_def
        operandsOf_def [symmetric] parameterTypes_def length_map n same omittedParameters_def
      by (simp add: thisOperands_def callThrough_def resultExpr_def same split: if_splits)
  next
    fix inits
    assume max: "length (operandsOf operands) < length (parameterList f0) + thisOperands f0"
      and const: "constantInitializers (omittedParameters f0 (length (operandsOf operands)))
                    = Some inits"
    show "resultExpr (makeCallDirect cx cb r operands c)
                = Some ((if MODULE_IMPORT \<in> commonFlags f then CallImport else Call)
                          (internalName f0)
                          (operandsOf operands
                           @ map (\<lambda>(ty, init). cx init ty IMPLICIT WrapMode.NONE) inits)
                          (toNativeType (returnType f0)))"
      using min max const cf(1)
      unfolding makeCallDirect_def f0 comp f option.case sum.case prod.case Let_def
        operandsOf_def [symmetric] parameterTypes_def length_map n same omittedParameters_def
      by (simp add: thisOperands_def callThrough_def resultExpr_def same split: if_splits)
  next
    assume max: "length (operandsOf operands) < length (parameterList f0) + thisOperands f0"
      and rest: "constantInitializers (omittedParameters f0 (length (operandsOf operands))) = None
                \<and> MODULE_IMPORT \<notin> commonFlags f
                \<and> (\<forall>t. trampoline f0 = Some t \<longrightarrow>
                       (\<exists>tr. heap c1 t = Some tr \<and> COMPILED \<in> commonFlags tr))"
    show "\<exists>c'. makeCallDirect cx cb r operands c
                 = Inr (Block None
                          [SetGlobal ''~argc''
                             (I32Const
                                (word_of_nat (length (operandsOf operands) - thisOperands f0))),
                           Call (trampolineName c1 f0)
                             (operandsOf operands
                              @ map (\<lambda>(ty, init). toNativeZero ty)
                                  (omittedParameters f0 (length (operandsOf operands))))
                             (toNativeType (returnType f0))]
                          (toNativeType (returnType f0)),
                        c')
                 \<and> argcVar c' \<noteq> 0"
    proof (rule makeCallDirect_trampoline [OF f0 comp f min max])
      show "constantInitializers (omittedParameters f0 (length (operandsOf operands))) = None"
        using rest by (rule conjunct1)
      show "MODULE_IMPORT \<notin> commonFlags f"
        using rest by (elim conjE)
      show "\<forall>t. trampoline f0 = Some t \<longrightarrow>
              (\<exists>tr. heap c1 t = Some tr \<and> COMPILED \<in> commonFlags tr)"
        using rest by (elim conjE)
    qed
  }
qed

lemma compilerT_fields:
  "heap compilerT = [0 \<mapsto> function_t]"
  "nextRef compilerT = 1"
  by (simp_all add: compilerT_def newCompiler_def)

text \<open>
  \<open>t(a: i32, b: i32 = h())\<close> called as \<open>t(5, 7)\<close> and as \<open>t(5)\<close>, and
  \<open>f(a: i32, b: i32 = 2)\<close> called as \<open>f(5)\<close>.
\<close>

theorem makeCallDirect_cases_witness:
  "heap compilerT 0 = Some function_t
   \<and> compileFunction cb_opaque 0 compilerT = Inr (True, compilerT)
   \<and> requiredParameters function_t + thisOperands function_t \<le> length (operandsOf (Some [I32Const 5]))
   \<and> resultExpr (makeCallDirect cx_opaque cb_opaque 0 (Some [I32Const 5, I32Const 7]) compilerT)
       = Some (Call ''t'' [I32Const 5, I32Const 7] NativeType.I32)
   \<and> resultExpr (makeCallDirect cx_opaque cb_opaque 0 (Some [I32Const 5]) compilerT)
       = Some (Block None
                 [SetGlobal ''~argc'' (I32Const 1),
                  Call ''t|trampoline'' [I32Const 5, I32Const 0] NativeType.I32]
                 NativeType.I32)
   \<and> resultExpr (makeCallDirect cx_opaque cb_opaque 0 (Some [I32Const 5]) compilerF)
       = Some (Call ''f'' [I32Const 5, Opaque 0] NoneType)"
proof -
  have t0: "heap compilerT 0 = Some function_t"
    by (simp add: compilerT_fields)
  have tc: "compileFunction cb_opaque 0 compilerT = Inr (True, compilerT)"
    by (simp add: compileFunction_def compilerT_fields function_t_def)
  have f0: "heap compilerF 0 = Some function_f"
    by (simp add: compilerF_fields)
  have fc: "compileFunction cb_opaque 0 compilerF = Inr (True, compilerF)"
    by (simp add: compileFunction_def compilerF_fields function_f_def)
  have min1: "requiredParameters function_t + thisOperands function_t
      \<le> length (operandsOf (Some [I32Const 5]))"
    by (simp add: function_t_def thisOperands_def operandsOf_def)
  have min2: "requiredParameters function_t + thisOperands function_t
      \<le> length (operandsOf (Some [I32Const 5, I32Const 7]))"
    by (simp add: function_t_def thisOperands_def operandsOf_def)
  have min3: "requiredParameters function_f + thisOperands function_f
      \<le> length (operandsOf (Some [I32Const 5]))"
    by (simp add: function_f_def thisOperands_def operandsOf_def)
  have full: "resultExpr (makeCallDirect cx_opaque cb_opaque 0 (Some [I32Const 5, I32Const 7]) compilerT)
       = Some (Call ''t'' [I32Const 5, I32Const 7] NativeType.I32)"
    using makeCallDirect_cases [OF t0 tc t0 min2, of cx_opaque]
    by (simp add: function_t_def thisOperands_def operandsOf_def toNativeType_def Type_i32_def)
  have tramp: "resultExpr (makeCallDirect cx_opaque cb_opaque 0 (Some [I32Const 5]) compilerT)
       = Some (Block None
                 [SetGlobal ''~argc'' (I32Const 1),
                  Call ''t|trampoline'' [I32Const 5, I32Const 0] NativeType.I32]
                 NativeType.I32)"
    using makeCallDirect_cases [OF t0 tc t0 min1, of cx_opaque]
    by (auto simp add: function_t_def thisOperands_def operandsOf_def toNativeType_def
        toNativeZero_def Type_i32_def omittedParameters_def trampolineName_def resultExpr_def)
  have const: "resultExpr (makeCallDirect cx_opaque cb_opaque 0 (Some [I32Const 5]) compilerF)
       = Some (Call ''f'' [I32Const 5, Opaque 0] NoneType)"
    using makeCallDirect_cases [OF f0 fc f0 min3, of cx_opaque]
    by (simp add: function_f_def thisOperands_def operandsOf_def toNativeType_def
        Type_void_def omittedParameters_def cx_opaque_def)
  show ?thesis
    using t0 tc min1 full tramp const by simp
qed

text \<open>
  Claim C2 as stated fails for a module import: \<open>g(5)\<close> omits an operand without a
  constant initializer, and the result is a \<open>call_import\<close> of \<open>g\<close> with the zero,
  not a block around a call of a trampoline; \<open>~argc\<close> is not created.
\<close>

theorem makeCallDirect_import_counterexample:
  "MODULE_IMPORT \<in> commonFlags function_imp
   \<and> length [I32Const 5] < length (parameterList function_imp)
   \<and> constantInitializers (omittedParameters function_imp 1) = None
   \<and> resultExpr (makeCallDirect cx_opaque cb_opaque 0 (Some [I32Const 5]) compilerImp)
       = Some (CallImport ''g'' [I32Const 5, I32Const 0] NativeType.I32)
   \<and> map_option argcVar
         (resultState (makeCallDirect cx_opaque cb_opaque 0 (Some [I32Const 5]) compilerImp))
       = Some 0"
  by (simp add: makeCallDirect_def compileFunction_def compilerImp_def newCompiler_def
      function_imp_def parameterTypes_def Let_def callThrough_def resultExpr_def resultState_def
      omittedParameters_def thisOperands_def toNativeZero_def toNativeType_def Type_i32_def)

end
